theory Spec2Isabelle
  imports Complex_Main
begin

section \<open>Tensors of the external library, over exact arithmetic\<close>

text \<open>
  The notebooks call a tensor library. Its tensors are modelled over exact rational
  arithmetic: an entry is a rational number or \<open>NaN\<close>, the value the library produces for
  the quotient \<open>0 / 0\<close> (the mean of a tensor without entries). Infinities do not arise from
  rational entries under the operations modelled here and are left out. All tensors are of
  one floating type: element types, and the errors the library raises for a wrong one
  (the mean of an integer tensor), are not modelled.
\<close>

datatype scalar = NaN | Val rat

fun s_add :: "scalar \<Rightarrow> scalar \<Rightarrow> scalar" where
  "s_add (Val a) (Val b) = Val (a + b)"
| "s_add _ _ = NaN"

fun s_sub :: "scalar \<Rightarrow> scalar \<Rightarrow> scalar" where
  "s_sub (Val a) (Val b) = Val (a - b)"
| "s_sub _ _ = NaN"

fun s_mul :: "scalar \<Rightarrow> scalar \<Rightarrow> scalar" where
  "s_mul (Val a) (Val b) = Val (a * b)"
| "s_mul _ _ = NaN"

text \<open>Comparison with \<open>==\<close>: a NaN is equal to nothing, itself included.\<close>

fun s_eq :: "scalar \<Rightarrow> scalar \<Rightarrow> bool" where
  "s_eq (Val a) (Val b) = (a = b)"
| "s_eq _ _ = False"

definition s_sum :: "scalar list \<Rightarrow> scalar" where
  "s_sum xs = foldl s_add (Val 0) xs"

text \<open>
  A tensor is its shape and its entries in row-major order. A tensor of the library always
  holds as many entries as its shape announces (\<open>wf_tensor\<close>); a 0-dimensional tensor has
  shape \<open>[]\<close> and one entry.
\<close>

record tensor =
  shape :: "nat list"
  data :: "scalar list"

definition numel :: "tensor \<Rightarrow> nat" where
  "numel t = prod_list (shape t)"

definition wf_tensor :: "tensor \<Rightarrow> bool" where
  "wf_tensor t = (length (data t) = numel t)"

definition exact :: "tensor \<Rightarrow> bool" where
  "exact t = list_all (\<lambda>v. v \<noteq> NaN) (data t)"

definition scalar_tensor :: "scalar \<Rightarrow> tensor" where
  "scalar_tensor v = \<lparr>shape = [], data = [v]\<rparr>"

definition item :: "tensor \<Rightarrow> scalar" where
  "item t = (case data t of [v] \<Rightarrow> v | _ \<Rightarrow> NaN)"

text \<open>
  The exceptions of the library and of the Python runtime that the modelled code can meet.
  \<open>Unmodelled\<close> is not an exception: it marks an operation on operands this development
  does not model (a matrix product whose right operand has three or more dimensions, the
  sum of two integer objects).
\<close>

datatype py_error =
  RuntimeError | IndexError | AttributeError | NameError | TypeError | AssertionError
  | ValueError | Unmodelled

subsection \<open>Broadcasting\<close>

text \<open>
  Two shapes are aligned at their last dimension; two aligned dimensions are compatible
  when they are equal or one of them is 1. \<open>broadcast_rev\<close> works on the reversed shapes.
\<close>

fun broadcast_rev :: "nat list \<Rightarrow> nat list \<Rightarrow> nat list option" where
  "broadcast_rev [] ys = Some ys"
| "broadcast_rev xs [] = Some xs"
| "broadcast_rev (x # xs) (y # ys) =
     (if x = y \<or> y = 1 then map_option ((#) x) (broadcast_rev xs ys)
      else if x = 1 then map_option ((#) y) (broadcast_rev xs ys)
      else None)"

definition broadcast_shapes :: "nat list \<Rightarrow> nat list \<Rightarrow> nat list option" where
  "broadcast_shapes a b = map_option rev (broadcast_rev (rev a) (rev b))"

text \<open>Row-major position of a multi-index, and the multi-index of a position.\<close>

fun unravel :: "nat list \<Rightarrow> nat \<Rightarrow> nat list" where
  "unravel [] i = []"
| "unravel (d # ds) i = (i div prod_list ds) mod d # unravel ds (i mod prod_list ds)"

fun ravel :: "nat list \<Rightarrow> nat list \<Rightarrow> nat" where
  "ravel (d # ds) (j # js) = j * prod_list ds + ravel ds js"
| "ravel _ _ = 0"

text \<open>
  The entry of an operand of shape \<open>a\<close> that position \<open>i\<close> of the broadcast result of shape
  \<open>r\<close> reads: the leading dimensions the operand lacks are dropped, and a dimension of
  size 1 is read at index 0.
\<close>

definition bcast_index :: "nat list \<Rightarrow> nat list \<Rightarrow> nat \<Rightarrow> nat" where
  "bcast_index r a i =
     ravel a (map2 (\<lambda>d j. if d = 1 then 0 else j) a (drop (length r - length a) (unravel r i)))"

definition broadcast_to :: "nat list \<Rightarrow> tensor \<Rightarrow> scalar list" where
  "broadcast_to r t = map (\<lambda>i. data t ! bcast_index r (shape t) i) [0..<prod_list r]"

text \<open>
  An elementwise binary operation: the operands are broadcast to their common shape, or
  the library raises a RuntimeError when the shapes are incompatible.
\<close>

definition broadcast2 ::
  "(scalar \<Rightarrow> scalar \<Rightarrow> 'a) \<Rightarrow> tensor \<Rightarrow> tensor \<Rightarrow> py_error + nat list \<times> 'a list" where
  "broadcast2 f a b =
     (case broadcast_shapes (shape a) (shape b) of
        None \<Rightarrow> Inl RuntimeError
      | Some r \<Rightarrow> Inr (r, map2 f (broadcast_to r a) (broadcast_to r b)))"

definition torch_binop ::
  "(scalar \<Rightarrow> scalar \<Rightarrow> scalar) \<Rightarrow> tensor \<Rightarrow> tensor \<Rightarrow> py_error + tensor" where
  "torch_binop f a b =
     (case broadcast2 f a b of
        Inl e \<Rightarrow> Inl e
      | Inr (r, vs) \<Rightarrow> Inr \<lparr>shape = r, data = vs\<rparr>)"

text \<open>\<open>a == b\<close>: the elementwise comparison, a tensor of truth values.\<close>

definition torch_eq :: "tensor \<Rightarrow> tensor \<Rightarrow> py_error + nat list \<times> bool list" where
  "torch_eq = broadcast2 s_eq"

definition torch_add :: "tensor \<Rightarrow> tensor \<Rightarrow> py_error + tensor" where
  "torch_add = torch_binop s_add"

definition torch_sub :: "tensor \<Rightarrow> tensor \<Rightarrow> py_error + tensor" where
  "torch_sub = torch_binop s_sub"

text \<open>
  \<open>x.mean()\<close>: the 0-dimensional tensor holding the sum of all entries divided by their
  number; for a tensor without entries the quotient is \<open>0 / 0\<close>, a NaN.
\<close>

definition torch_mean :: "tensor \<Rightarrow> tensor" where
  "torch_mean x =
     scalar_tensor
       (if numel x = 0 then NaN
        else (case s_sum (data x) of NaN \<Rightarrow> NaN | Val a \<Rightarrow> Val (a / of_nat (numel x))))"

subsection \<open>Matrix product, transposition, rectifier\<close>

definition dot :: "scalar list \<Rightarrow> scalar list \<Rightarrow> scalar" where
  "dot xs ys = s_sum (map2 s_mul xs ys)"

text \<open>Row \<open>r\<close> of a row-major matrix with \<open>k\<close> columns; column \<open>j\<close> of a \<open>k \<times> u\<close> matrix.\<close>

definition row :: "nat \<Rightarrow> scalar list \<Rightarrow> nat \<Rightarrow> scalar list" where
  "row k xs r = take k (drop (r * k) xs)"

definition col :: "nat \<Rightarrow> nat \<Rightarrow> scalar list \<Rightarrow> nat \<Rightarrow> scalar list" where
  "col k u ws j = map (\<lambda>i. ws ! (i * u + j)) [0..<k]"

definition matmul_data :: "nat \<Rightarrow> nat \<Rightarrow> nat \<Rightarrow> scalar list \<Rightarrow> scalar list \<Rightarrow> scalar list" where
  "matmul_data n k u xs ws =
     concat (map (\<lambda>r. map (\<lambda>j. dot (row k xs r) (col k u ws j)) [0..<u]) [0..<n])"

text \<open>
  \<open>torch.matmul(x, w)\<close> for a right operand of one or two dimensions: the last dimension
  of \<open>x\<close> is contracted with the first of \<open>w\<close>, the leading dimensions of \<open>x\<close> are kept.
  A 0-dimensional operand and a mismatch of the contracted dimensions raise RuntimeError.
\<close>

definition torch_matmul :: "tensor \<Rightarrow> tensor \<Rightarrow> py_error + tensor" where
  "torch_matmul x w =
     (if shape x = [] \<or> shape w = [] then Inl RuntimeError
      else (case shape w of
          [k] \<Rightarrow>
            if last (shape x) \<noteq> k then Inl RuntimeError
            else Inr \<lparr>shape = butlast (shape x),
                      data = matmul_data (prod_list (butlast (shape x))) k 1 (data x) (data w)\<rparr>
        | [k, u] \<Rightarrow>
            if last (shape x) \<noteq> k then Inl RuntimeError
            else Inr \<lparr>shape = butlast (shape x) @ [u],
                      data = matmul_data (prod_list (butlast (shape x))) k u (data x) (data w)\<rparr>
        | _ \<Rightarrow> Inl Unmodelled))"

text \<open>\<open>w.t()\<close>: a matrix is transposed, a tensor of fewer dimensions is returned as it is.\<close>

definition torch_t :: "tensor \<Rightarrow> py_error + tensor" where
  "torch_t w =
     (case shape w of
        [] \<Rightarrow> Inr w
      | [n] \<Rightarrow> Inr w
      | [r, c] \<Rightarrow>
          Inr \<lparr>shape = [c, r], data = map (\<lambda>p. data w ! ((p mod r) * c + p div r)) [0..<c * r]\<rparr>
      | _ \<Rightarrow> Inl RuntimeError)"

text \<open>The library's linear map \<open>F.linear(x, w, b) = x w\<^sup>T + b\<close> and rectifier.\<close>

definition F_linear :: "tensor \<Rightarrow> tensor \<Rightarrow> tensor \<Rightarrow> py_error + tensor" where
  "F_linear x w b =
     (case torch_t w of
        Inl e \<Rightarrow> Inl e
      | Inr wt \<Rightarrow> (case torch_matmul x wt of Inl e \<Rightarrow> Inl e | Inr y \<Rightarrow> torch_add y b))"

fun s_relu :: "scalar \<Rightarrow> scalar" where
  "s_relu NaN = NaN"
| "s_relu (Val a) = Val (max 0 a)"

definition torch_relu :: "tensor \<Rightarrow> tensor" where
  "torch_relu x = x\<lparr>data := map s_relu (data x)\<rparr>"

subsection \<open>Indexing\<close>

text \<open>
  \<open>t[0]\<close>: the first slice along the first dimension, and the write \<open>t[i, j] = v\<close> into a
  matrix. Both raise IndexError outside the tensor's dimensions.
\<close>

definition torch_getitem0 :: "tensor \<Rightarrow> py_error + tensor" where
  "torch_getitem0 t =
     (case shape t of
        [] \<Rightarrow> Inl IndexError
      | d # ds \<Rightarrow>
          if d = 0 then Inl IndexError
          else Inr \<lparr>shape = ds, data = take (prod_list ds) (data t)\<rparr>)"

definition torch_setitem2 :: "tensor \<Rightarrow> nat \<Rightarrow> nat \<Rightarrow> scalar \<Rightarrow> py_error + tensor" where
  "torch_setitem2 t i j v =
     (case shape t of
        [r, c] \<Rightarrow>
          if i < r \<and> j < c then Inr (t\<lparr>data := (data t)[i * c + j := v]\<rparr>)
          else Inl IndexError
      | _ \<Rightarrow> Inl IndexError)"

section \<open>Objects: the store, parameters and modules\<close>

text \<open>
  Tensors and modules are objects with an identity. The store holds the tensor objects by
  address, the next free address, and the position of the library's random generator.
  The generator is a parameter \<open>g\<close>: \<open>g i\<close> is the \<open>i\<close>-th number it hands out; the
  distribution a call asks for is not modelled.
\<close>

type_synonym addr = nat

type_synonym gen = "nat \<Rightarrow> rat"

record store =
  heap :: "addr \<Rightarrow> tensor"
  next_addr :: addr
  rng_pos :: nat

definition new_id :: "store \<Rightarrow> addr \<times> store" where
  "new_id s = (next_addr s, s\<lparr>next_addr := Suc (next_addr s)\<rparr>)"

definition alloc :: "tensor \<Rightarrow> store \<Rightarrow> addr \<times> store" where
  "alloc t s = (next_addr s, s\<lparr>heap := (heap s)(next_addr s := t), next_addr := Suc (next_addr s)\<rparr>)"

definition draws :: "gen \<Rightarrow> nat \<Rightarrow> nat \<Rightarrow> scalar list" where
  "draws g pos n = map (\<lambda>i. Val (g i)) [pos..<pos + n]"

definition torch_randn :: "gen \<Rightarrow> nat list \<Rightarrow> store \<Rightarrow> tensor \<times> store" where
  "torch_randn g shp s =
     (\<lparr>shape = shp, data = draws g (rng_pos s) (prod_list shp)\<rparr>,
      s\<lparr>rng_pos := rng_pos s + prod_list shp\<rparr>)"

text \<open>In-place initialisers of \<open>nn.init\<close>: they overwrite the entries of the tensor at an address.\<close>

definition nn_init_normal :: "gen \<Rightarrow> addr \<Rightarrow> store \<Rightarrow> store" where
  "nn_init_normal g a s =
     s\<lparr>heap := (heap s)(a := (heap s a)\<lparr>data := draws g (rng_pos s) (numel (heap s a))\<rparr>),
       rng_pos := rng_pos s + numel (heap s a)\<rparr>"

definition nn_init_constant :: "addr \<Rightarrow> rat \<Rightarrow> store \<Rightarrow> store" where
  "nn_init_constant a c s =
     s\<lparr>heap := (heap s)(a := (heap s a)\<lparr>data := replicate (numel (heap s a)) (Val c)\<rparr>)\<rparr>"

definition nn_init_zeros :: "addr \<Rightarrow> store \<Rightarrow> store" where
  "nn_init_zeros a = nn_init_constant a 0"

text \<open>
  A linear layer object owns two parameters, \<open>weight\<close> and \<open>bias\<close>, each a tensor object
  of the store. A module is one of the library's (\<open>Linear\<close>, \<open>ReLU\<close>, \<open>Sequential\<close>) or one
  of the two classes the notebook defines; the first argument of a constructor is the
  identity of the module object.
\<close>

record params =
  weight :: addr
  bias :: addr

datatype module =
  Linear addr params
| ReLU addr
| Sequential addr "module list"
| CenteredLayer addr
| MyLinear addr params

fun module_id :: "module \<Rightarrow> addr" where
  "module_id (Linear i p) = i"
| "module_id (ReLU i) = i"
| "module_id (Sequential i ms) = i"
| "module_id (CenteredLayer i) = i"
| "module_id (MyLinear i p) = i"

definition nn_Linear :: "gen \<Rightarrow> nat \<Rightarrow> nat \<Rightarrow> store \<Rightarrow> module \<times> store" where
  "nn_Linear g in_features out_features s =
     (let (i, s1) = new_id s;
          (w, s2) = torch_randn g [out_features, in_features] s1;
          (wa, s3) = alloc w s2;
          (b, s4) = torch_randn g [out_features] s3;
          (ba, s5) = alloc b s4
      in (Linear i \<lparr>weight = wa, bias = ba\<rparr>, s5))"

definition nn_ReLU :: "store \<Rightarrow> module \<times> store" where
  "nn_ReLU s = (let (i, s1) = new_id s in (ReLU i, s1))"

definition nn_Sequential :: "module list \<Rightarrow> store \<Rightarrow> module \<times> store" where
  "nn_Sequential ms s = (let (i, s1) = new_id s in (Sequential i ms, s1))"

text \<open>\<open>net[i]\<close> and the attributes \<open>.weight\<close>, \<open>.bias\<close>.\<close>

definition getitem :: "module \<Rightarrow> int \<Rightarrow> py_error + module" where
  "getitem m i =
     (case m of
        Sequential _ ms \<Rightarrow>
          (let n = int (length ms)
           in if - n \<le> i \<and> i < n then Inr (ms ! nat (i mod n)) else Inl IndexError)
      | _ \<Rightarrow> Inl TypeError)"

fun attr_weight :: "module \<Rightarrow> py_error + addr" where
  "attr_weight (Linear i p) = Inr (weight p)"
| "attr_weight (MyLinear i p) = Inr (weight p)"
| "attr_weight _ = Inl AttributeError"

fun attr_bias :: "module \<Rightarrow> py_error + addr" where
  "attr_bias (Linear i p) = Inr (bias p)"
| "attr_bias (MyLinear i p) = Inr (bias p)"
| "attr_bias _ = Inl AttributeError"

fun is_Linear :: "module \<Rightarrow> bool" where
  "is_Linear (Linear i p) = True"
| "is_Linear _ = False"

text \<open>
  \<open>children()\<close> lists the direct submodules, each module object once (its first
  occurrence); \<open>m.apply(fn)\<close> applies \<open>fn\<close> to every descendant, children first, and to
  \<open>m\<close> itself last. An exception of \<open>fn\<close> ends the traversal.
\<close>

fun distinct_modules :: "module list \<Rightarrow> module list" where
  "distinct_modules [] = []"
| "distinct_modules (m # ms) =
     m # filter (\<lambda>m'. module_id m' \<noteq> module_id m) (distinct_modules ms)"

fun children :: "module \<Rightarrow> module list" where
  "children (Sequential i ms) = distinct_modules ms"
| "children _ = []"

lemma size_filter_le: "size_list f (filter P xs) \<le> size_list f xs"
  by (induction xs) simp_all

lemma size_distinct_modules: "size_list size (distinct_modules ms) \<le> size_list size ms"
proof (induction ms)
  case Nil
  then show ?case by simp
next
  case (Cons m ms)
  have "size_list size (filter (\<lambda>m'. module_id m' \<noteq> module_id m) (distinct_modules ms))
      \<le> size_list size (distinct_modules ms)"
    by (rule size_filter_le)
  with Cons show ?case by simp
qed

lemma size_children: "size_list size (children m) \<le> size m"
proof (cases m)
  case (Sequential i ms)
  then show ?thesis using size_distinct_modules[of ms] by simp
qed simp_all

function Module_apply ::
    "(module \<Rightarrow> store \<Rightarrow> py_error + store) \<Rightarrow> module \<Rightarrow> store \<Rightarrow> py_error + store"
  and apply_each ::
    "(module \<Rightarrow> store \<Rightarrow> py_error + store) \<Rightarrow> module list \<Rightarrow> store \<Rightarrow> py_error + store"
where
  "Module_apply fn m s =
     (case apply_each fn (children m) s of Inl e \<Rightarrow> Inl e | Inr s' \<Rightarrow> fn m s')"
| "apply_each fn [] s = Inr s"
| "apply_each fn (c # cs) s =
     (case Module_apply fn c s of Inl e \<Rightarrow> Inl e | Inr s' \<Rightarrow> apply_each fn cs s')"
  by pat_completeness auto
termination
proof (relation "measure (\<lambda>a. case a of Inl (fn, m, s) \<Rightarrow> 2 * size m + 2
                                           | Inr (fn, ms, s) \<Rightarrow> 2 * size_list size ms + 1)")
  show "wf (measure (\<lambda>a. case a of Inl (fn, m, s) \<Rightarrow> 2 * size m + 2
                                   | Inr (fn, ms, s) \<Rightarrow> 2 * size_list size ms + 1))"
    by simp
next
  fix fn :: "module \<Rightarrow> store \<Rightarrow> py_error + store" and m :: module and s :: store
  show "(Inr (fn, children m, s), Inl (fn, m, s))
        \<in> measure (\<lambda>a. case a of Inl (fn, m, s) \<Rightarrow> 2 * size m + 2
                                  | Inr (fn, ms, s) \<Rightarrow> 2 * size_list size ms + 1)"
    using size_children[of m] by simp
qed simp_all

section \<open>custom-layer.ipynb\<close>

text \<open>
  \<^verbatim>\<open>
  class CenteredLayer(nn.Module):
      def __init__(self):
          super().__init__()
      def forward(self, x):
          return x - x.mean()
  \<close>
\<close>

definition CenteredLayer_init :: "store \<Rightarrow> module \<times> store" where
  "CenteredLayer_init s = (let (i, s1) = new_id s in (CenteredLayer i, s1))"

definition CenteredLayer_forward :: "tensor \<Rightarrow> py_error + tensor" where
  "CenteredLayer_forward x = torch_sub x (torch_mean x)"

text \<open>
  \<^verbatim>\<open>
  class MyLinear(nn.Module):
      def __init__(self, in_units, units):
          super().__init__()
          self.weight = nn.Parameter(torch.randn(in_units, units))
          self.bias = nn.Parameter(torch.randn(units,))
      def forward(self, x):
          return torch.matmul(x, self.weight.data) + self.bias.data
  \<close>
  \<open>self\<close> is given by its two attributes; \<open>.data\<close> reads the tensor of a parameter.
\<close>

definition MyLinear_init :: "gen \<Rightarrow> nat \<Rightarrow> nat \<Rightarrow> store \<Rightarrow> module \<times> store" where
  "MyLinear_init g in_units units s =
     (let (i, s1) = new_id s;
          (w, s2) = torch_randn g [in_units, units] s1;
          (wa, s3) = alloc w s2;
          (b, s4) = torch_randn g [units] s3;
          (ba, s5) = alloc b s4
      in (MyLinear i \<lparr>weight = wa, bias = ba\<rparr>, s5))"

definition MyLinear_forward :: "store \<Rightarrow> params \<Rightarrow> tensor \<Rightarrow> py_error + tensor" where
  "MyLinear_forward s self x =
     (case torch_matmul x (heap s (weight self)) of
        Inl e \<Rightarrow> Inl e
      | Inr y \<Rightarrow> torch_add y (heap s (bias self)))"

text \<open>
  Calling a module: the library dispatches to the \<open>forward\<close> of its class. The forward
  pass reads the store and leaves it as it is.
\<close>

fun module_forward :: "store \<Rightarrow> module \<Rightarrow> tensor \<Rightarrow> py_error + tensor"
  and seq_forward :: "store \<Rightarrow> module list \<Rightarrow> tensor \<Rightarrow> py_error + tensor"
where
  "module_forward s (Linear i p) x = F_linear x (heap s (weight p)) (heap s (bias p))"
| "module_forward s (ReLU i) x = Inr (torch_relu x)"
| "module_forward s (Sequential i ms) x = seq_forward s ms x"
| "module_forward s (CenteredLayer i) x = CenteredLayer_forward x"
| "module_forward s (MyLinear i p) x = MyLinear_forward s p x"
| "seq_forward s [] x = Inr x"
| "seq_forward s (m # ms) x =
     (case module_forward s m x of Inl e \<Rightarrow> Inl e | Inr y \<Rightarrow> seq_forward s ms y)"

section \<open>parameters.ipynb\<close>

text \<open>
  The first cell binds the global \<open>net\<close>:
  \<^verbatim>\<open>net = nn.Sequential(nn.Linear(4, 8), nn.ReLU(), nn.Linear(8, 1))\<close>
\<close>

definition first_net :: "gen \<Rightarrow> store \<Rightarrow> module \<times> store" where
  "first_net g s =
     (let (l0, s1) = nn_Linear g 4 8 s;
          (r1, s2) = nn_ReLU s1;
          (l2, s3) = nn_Linear g 8 1 s2
      in nn_Sequential [l0, r1, l2] s3)"

text \<open>
  \<open>net[i].weight\<close> and \<open>net[i].bias\<close>, the parameter objects, and \<open>net[i].weight.data\<close>,
  the tensor the store holds for the weight.
\<close>

definition weight_at :: "module \<Rightarrow> int \<Rightarrow> py_error + addr" where
  "weight_at net i = (case getitem net i of Inl e \<Rightarrow> Inl e | Inr m \<Rightarrow> attr_weight m)"

definition bias_at :: "module \<Rightarrow> int \<Rightarrow> py_error + addr" where
  "bias_at net i = (case getitem net i of Inl e \<Rightarrow> Inl e | Inr m \<Rightarrow> attr_bias m)"

definition weight_data :: "store \<Rightarrow> module \<Rightarrow> int \<Rightarrow> py_error + tensor" where
  "weight_data s net i = (case weight_at net i of Inl e \<Rightarrow> Inl e | Inr w \<Rightarrow> Inr (heap s w))"

definition bias_data :: "store \<Rightarrow> module \<Rightarrow> int \<Rightarrow> py_error + tensor" where
  "bias_data s net i = (case bias_at net i of Inl e \<Rightarrow> Inl e | Inr b \<Rightarrow> Inr (heap s b))"

text \<open>
  \<^verbatim>\<open>
  def init_normal(m):
      if type(m) == nn.Linear:
          nn.init.normal_(net[0].weight, mean=0, std=0.01)
          nn.init.zeros_(net[0].bias)
  net.apply(init_normal)
  net[0].weight.data[0], net[0].bias.data[0]
  \<close>
  \<open>net\<close> is the global variable, read when \<open>init_normal\<close> runs.
\<close>

definition init_normal :: "gen \<Rightarrow> module \<Rightarrow> module \<Rightarrow> store \<Rightarrow> py_error + store" where
  "init_normal g net m s =
     (if is_Linear m then
        (case weight_at net 0 of
           Inl e \<Rightarrow> Inl e
         | Inr w \<Rightarrow>
             (let s1 = nn_init_normal g w s
              in (case bias_at net 0 of
                    Inl e \<Rightarrow> Inl e
                  | Inr b \<Rightarrow> Inr (nn_init_zeros b s1))))
      else Inr s)"

definition init_normal_cell ::
    "gen \<Rightarrow> module \<Rightarrow> store \<Rightarrow> py_error + (tensor \<times> tensor) \<times> store" where
  "init_normal_cell g net s =
     (case Module_apply (init_normal g net) net s of
        Inl e \<Rightarrow> Inl e
      | Inr s' \<Rightarrow>
          (case weight_data s' net 0 of
             Inl e \<Rightarrow> Inl e
           | Inr w \<Rightarrow>
               (case torch_getitem0 w of
                  Inl e \<Rightarrow> Inl e
                | Inr w0 \<Rightarrow>
                    (case bias_data s' net 0 of
                       Inl e \<Rightarrow> Inl e
                     | Inr b \<Rightarrow>
                         (case torch_getitem0 b of
                            Inl e \<Rightarrow> Inl e
                          | Inr b0 \<Rightarrow> Inr ((w0, b0), s'))))))"

text \<open>
  \<^verbatim>\<open>
  shared = nn.Linear(8, 8)
  net = nn.Sequential(nn.Linear(4, 8), nn.ReLU(),
                      shared, nn.ReLU(),
                      shared, nn.ReLU(),
                      nn.Linear(8, 1))
  net(x)
  print(net[2].weight.data[0] == net[4].weight.data[0])
  net[2].weight.data[0, 0] = 100
  print(net[2].weight.data[0] == net[4].weight.data[0])
  \<close>
\<close>

definition tied_net :: "gen \<Rightarrow> store \<Rightarrow> module \<times> store" where
  "tied_net g s =
     (let (shared, s1) = nn_Linear g 8 8 s;
          (l0, s2) = nn_Linear g 4 8 s1;
          (r1, s3) = nn_ReLU s2;
          (r3, s4) = nn_ReLU s3;
          (r5, s5) = nn_ReLU s4;
          (l6, s6) = nn_Linear g 8 1 s5
      in nn_Sequential [l0, r1, shared, r3, shared, r5, l6] s6)"

text \<open>\<open>net[i].weight.data[0] == net[j].weight.data[0]\<close>, the comparison both prints show.\<close>

definition weight_rows_equal :: "store \<Rightarrow> module \<Rightarrow> int \<Rightarrow> int \<Rightarrow> py_error + bool list" where
  "weight_rows_equal s net i j =
     (case weight_data s net i of
        Inl e \<Rightarrow> Inl e
      | Inr wi \<Rightarrow>
          (case torch_getitem0 wi of
             Inl e \<Rightarrow> Inl e
           | Inr ri \<Rightarrow>
               (case weight_data s net j of
                  Inl e \<Rightarrow> Inl e
                | Inr wj \<Rightarrow>
                    (case torch_getitem0 wj of
                       Inl e \<Rightarrow> Inl e
                     | Inr rj \<Rightarrow> map_sum id snd (torch_eq ri rj)))))"

text \<open>\<open>net[i].weight.data[r, c] = v\<close>: a write into the tensor object of the parameter.\<close>

definition weight_write ::
    "module \<Rightarrow> int \<Rightarrow> nat \<Rightarrow> nat \<Rightarrow> scalar \<Rightarrow> store \<Rightarrow> py_error + store" where
  "weight_write net i r c v s =
     (case weight_at net i of
        Inl e \<Rightarrow> Inl e
      | Inr w \<Rightarrow>
          (case torch_setitem2 (heap s w) r c v of
             Inl e \<Rightarrow> Inl e
           | Inr t \<Rightarrow> Inr (s\<lparr>heap := (heap s)(w := t)\<rparr>)))"

text \<open>
  The cell, given the tensor \<open>x\<close> an earlier cell left behind: the two printed
  comparisons, the network, and the stores after the call \<open>net(x)\<close> and after the write.
\<close>

definition tied_cell ::
    "gen \<Rightarrow> tensor \<Rightarrow> store \<Rightarrow> py_error + (bool list \<times> bool list) \<times> module \<times> store \<times> store" where
  "tied_cell g x s =
     (let (net, s1) = tied_net g s
      in (case module_forward s1 net x of
            Inl e \<Rightarrow> Inl e
          | Inr y \<Rightarrow>
              (case weight_rows_equal s1 net 2 4 of
                 Inl e \<Rightarrow> Inl e
               | Inr p1 \<Rightarrow>
                   (case weight_write net 2 0 0 (Val 100) s1 of
                      Inl e \<Rightarrow> Inl e
                    | Inr s2 \<Rightarrow>
                        (case weight_rows_equal s2 net 2 4 of
                           Inl e \<Rightarrow> Inl e
                         | Inr p2 \<Rightarrow> Inr ((p1, p2), net, s1, s2))))))"

section \<open>The linear-regression notebook\<close>

text \<open>
  \<^verbatim>\<open>
  def load_array(data_arrays, batch_size, is_train=True):  #@save
      """Construct a PyTorch data loader"""
      dataset = data.TensorDataset(*data_arrays)
      return data.DataLoader(dataset, batch_size, shuffle=is_train)
  \<close>
  The two constructors belong to the library and are parameters of the model; each
  returns its object or raises.
\<close>

definition load_array ::
    "('t list \<Rightarrow> 'e + 'd) \<Rightarrow> ('d \<Rightarrow> 'n \<Rightarrow> bool \<Rightarrow> 'e + 'l) \<Rightarrow> 't list \<Rightarrow> 'n \<Rightarrow> bool \<Rightarrow> 'e + 'l" where
  "load_array TensorDataset DataLoader data_arrays batch_size is_train =
     (case TensorDataset data_arrays of
        Inl e \<Rightarrow> Inl e
      | Inr dataset \<Rightarrow> DataLoader dataset batch_size is_train)"

text \<open>
  A rendering of the two constructors as the library documents them: a dataset needs at
  least one tensor and compares the first dimension of each tensor, in order, with that
  of the first; a loader needs a positive batch size.
\<close>

record loader =
  dataset :: "tensor list"
  batch_size :: int
  shuffle :: bool

fun same_size0 :: "tensor \<Rightarrow> tensor list \<Rightarrow> py_error + unit" where
  "same_size0 t [] = Inr ()"
| "same_size0 t (u # us) =
     (if shape t = [] \<or> shape u = [] then Inl IndexError
      else if hd (shape t) = hd (shape u) then same_size0 t us
      else Inl AssertionError)"

definition TensorDataset :: "tensor list \<Rightarrow> py_error + tensor list" where
  "TensorDataset ts =
     (case ts of
        [] \<Rightarrow> Inl IndexError
      | t # _ \<Rightarrow> (case same_size0 t ts of Inl e \<Rightarrow> Inl e | Inr _ \<Rightarrow> Inr ts))"

definition DataLoader :: "tensor list \<Rightarrow> int \<Rightarrow> bool \<Rightarrow> py_error + loader" where
  "DataLoader ds n sh =
     (if n \<le> 0 then Inl ValueError
      else Inr \<lparr>dataset = ds, batch_size = n, shuffle = sh\<rparr>)"

text \<open>
  \<^verbatim>\<open>
  num_epochs = 3
  for epoch in range(1, num_epochs + 1):
      for X, y in data_iter:
          l = loss(net(X) ,y)
          trainer.zero_grad()
          l.backward()
          trainer.step()
      l = loss(net(features), labels)
      print('epoch {}, loss {}'.format(epoch, l))
  \<close>
  The loop is the notebook's; what it calls belongs to the library and is a parameter:
  iterating the loader yields the minibatches of one pass, \<open>net_loss b\<close> is
  \<open>loss(net(X), y)\<close> on a batch, and each call works on the library's state \<open>'s\<close> or
  raises.
\<close>

record ('s, 'b, 'l, 'e) torch_api =
  iterate :: "'s \<Rightarrow> 'e + 'b list \<times> 's"
  net_loss :: "'b \<Rightarrow> 's \<Rightarrow> 'e + 'l \<times> 's"
  zero_grad :: "'s \<Rightarrow> 'e + 's"
  backward :: "'l \<Rightarrow> 's \<Rightarrow> 'e + 's"
  step :: "'s \<Rightarrow> 'e + 's"
  print_loss :: "nat \<Rightarrow> 'l \<Rightarrow> 's \<Rightarrow> 's"

fun batch_loop :: "('s, 'b, 'l, 'e) torch_api \<Rightarrow> 'b list \<Rightarrow> 's \<Rightarrow> 'e + 's" where
  "batch_loop api [] s = Inr s"
| "batch_loop api (b # bs) s =
     (case net_loss api b s of
        Inl e \<Rightarrow> Inl e
      | Inr (l, s1) \<Rightarrow>
          (case zero_grad api s1 of
             Inl e \<Rightarrow> Inl e
           | Inr s2 \<Rightarrow>
               (case backward api l s2 of
                  Inl e \<Rightarrow> Inl e
                | Inr s3 \<Rightarrow>
                    (case step api s3 of
                       Inl e \<Rightarrow> Inl e
                     | Inr s4 \<Rightarrow> batch_loop api bs s4))))"

fun epoch_loop :: "('s, 'b, 'l, 'e) torch_api \<Rightarrow> 'b \<Rightarrow> nat list \<Rightarrow> 's \<Rightarrow> 'e + 's" where
  "epoch_loop api full [] s = Inr s"
| "epoch_loop api full (epoch # epochs) s =
     (case iterate api s of
        Inl e \<Rightarrow> Inl e
      | Inr (bs, s1) \<Rightarrow>
          (case batch_loop api bs s1 of
             Inl e \<Rightarrow> Inl e
           | Inr s2 \<Rightarrow>
               (case net_loss api full s2 of
                  Inl e \<Rightarrow> Inl e
                | Inr (l, s3) \<Rightarrow> epoch_loop api full epochs (print_loss api epoch l s3))))"

definition train :: "('s, 'b, 'l, 'e) torch_api \<Rightarrow> 'b \<Rightarrow> nat \<Rightarrow> 's \<Rightarrow> 'e + 's" where
  "train api full num_epochs s = epoch_loop api full [1..<num_epochs + 1] s"

definition training_cell :: "('s, 'b, 'l, 'e) torch_api \<Rightarrow> 'b \<Rightarrow> 's \<Rightarrow> 'e + 's" where
  "training_cell api full s = train api full 3 s"

text \<open>
  A library that does nothing but record the calls it receives, in order: running the
  loop against it shows the order of the calls the loop makes.
\<close>

datatype 'b call = Iterate | NetLoss 'b | ZeroGrad | Backward 'b | Step | Print nat 'b

definition recording_api :: "'b list \<Rightarrow> ('b call list, 'b, 'b, 'e) torch_api" where
  "recording_api bs =
     \<lparr>iterate = (\<lambda>s. Inr (bs, s @ [Iterate])),
      net_loss = (\<lambda>b s. Inr (b, s @ [NetLoss b])),
      zero_grad = (\<lambda>s. Inr (s @ [ZeroGrad])),
      backward = (\<lambda>l s. Inr (s @ [Backward l])),
      step = (\<lambda>s. Inr (s @ [Step])),
      print_loss = (\<lambda>epoch l s. s @ [Print epoch l])\<rparr>"

definition calls_of_batch :: "'b \<Rightarrow> 'b call list" where
  "calls_of_batch b = [NetLoss b, ZeroGrad, Backward b, Step]"

definition calls_of_epoch :: "'b list \<Rightarrow> 'b \<Rightarrow> nat \<Rightarrow> 'b call list" where
  "calls_of_epoch bs full epoch =
     Iterate # concat (map calls_of_batch bs) @ [NetLoss full, Print epoch full]"

text \<open>
  The cell that rebinds \<open>y\<close>:
  \<^verbatim>\<open>
  before = id(y)
  y = y + x
  id(y) == before
  \<close>
  A variable of the notebook is bound to a tensor object of the store (\<open>tensors\<close>) or to
  an integer object, given by its identity and its value (\<open>ints\<close>); a name bound in both
  is read as the tensor, and a name bound in neither raises NameError.
\<close>

record notebook =
  tensors :: "string \<rightharpoonup> addr"
  ints :: "string \<rightharpoonup> addr \<times> int"
  mem :: store

datatype operand = TensorAt addr | IntAt addr int

definition lookup_name :: "notebook \<Rightarrow> string \<Rightarrow> py_error + operand" where
  "lookup_name nb v =
     (case tensors nb v of
        Some a \<Rightarrow> Inr (TensorAt a)
      | None \<Rightarrow> (case ints nb v of Some (a, n) \<Rightarrow> Inr (IntAt a n) | None \<Rightarrow> Inl NameError))"

fun object_id :: "operand \<Rightarrow> addr" where
  "object_id (TensorAt a) = a"
| "object_id (IntAt a n) = a"

text \<open>
  \<open>y + x\<close>: an integer added to a tensor acts as a 0-dimensional tensor. The sum of two
  integers is an integer, and whether it is a new object is decided by the interpreter's
  cache of small integers: that case is marked \<open>Unmodelled\<close>.
\<close>

fun plus_operands :: "store \<Rightarrow> operand \<Rightarrow> operand \<Rightarrow> py_error + tensor" where
  "plus_operands m (TensorAt a) (TensorAt b) = torch_add (heap m a) (heap m b)"
| "plus_operands m (TensorAt a) (IntAt b j) = torch_add (heap m a) (scalar_tensor (Val (of_int j)))"
| "plus_operands m (IntAt a i) (TensorAt b) = torch_add (heap m b) (scalar_tensor (Val (of_int i)))"
| "plus_operands m (IntAt a i) (IntAt b j) = Inl Unmodelled"

text \<open>
  \<open>id(y)\<close> is the identity of the object \<open>y\<close> is bound to; the integer it returns is a
  new object, which \<open>before\<close> is bound to. The sum is a new tensor object.
\<close>

definition id_cell :: "notebook \<Rightarrow> py_error + bool \<times> notebook" where
  "id_cell nb =
     (case lookup_name nb ''y'' of
        Inl e \<Rightarrow> Inl e
      | Inr oy \<Rightarrow>
          (let (ab, m1) = new_id (mem nb);
               nb1 = nb\<lparr>tensors := (tensors nb)(''before'' := None),
                        ints := (ints nb)(''before'' \<mapsto> (ab, int (object_id oy))),
                        mem := m1\<rparr>
           in (case lookup_name nb1 ''y'' of
                 Inl e \<Rightarrow> Inl e
               | Inr oy1 \<Rightarrow>
                   (case lookup_name nb1 ''x'' of
                      Inl e \<Rightarrow> Inl e
                    | Inr ox \<Rightarrow>
                        (case plus_operands (mem nb1) oy1 ox of
                           Inl e \<Rightarrow> Inl e
                         | Inr t \<Rightarrow>
                             (let (a, m2) = alloc t (mem nb1);
                                  nb2 = nb1\<lparr>tensors := (tensors nb1)(''y'' \<mapsto> a),
                                            ints := (ints nb1)(''y'' := None),
                                            mem := m2\<rparr>
                              in (case lookup_name nb2 ''y'' of
                                    Inl e \<Rightarrow> Inl e
                                  | Inr oy2 \<Rightarrow>
                                      (case ints nb2 ''before'' of
                                         None \<Rightarrow> Inl NameError
                                       | Some (b, n) \<Rightarrow>
                                           Inr (int (object_id oy2) = n, nb2)))))))))"

section \<open>Facts about broadcasting and centering\<close>

lemma ravel_unravel:
  "i < prod_list ds \<Longrightarrow> ravel ds (map2 (\<lambda>d j. if d = 1 then 0 else j) ds (unravel ds i)) = i"
proof (induction ds arbitrary: i)
  case Nil
  then show ?case by simp
next
  case (Cons d ds)
  let ?P = "prod_list ds"
  from Cons.prems have lt: "i < d * ?P" by simp
  then have P: "0 < ?P" by (cases "?P = 0") auto
  have q: "i div ?P < d" using lt P by (simp add: less_mult_imp_div_less mult.commute)
  have r: "i mod ?P < ?P" using P by simp
  have e: "(if d = 1 then 0 else i div ?P) = i div ?P" using q by auto
  have "ravel (d # ds) (map2 (\<lambda>d j. if d = 1 then 0 else j) (d # ds) (unravel (d # ds) i))
      = (if d = 1 then 0 else (i div ?P) mod d) * ?P + i mod ?P"
    using Cons.IH[OF r] by simp
  also have "\<dots> = (i div ?P) * ?P + i mod ?P"
  proof (cases "d = 1")
    case True
    then have "i div ?P = 0" using q by simp
    then show ?thesis using True by simp
  next
    case False
    then show ?thesis using q by simp
  qed
  also have "\<dots> = i" by simp
  finally show ?case .
qed

lemma broadcast_rev_Nil2: "broadcast_rev xs [] = Some xs"
  by (cases xs) auto

lemma broadcast_shapes_scalar: "broadcast_shapes s [] = Some s"
  by (simp add: broadcast_shapes_def broadcast_rev_Nil2)

lemma broadcast_to_self:
  assumes "wf_tensor x"
  shows "broadcast_to (shape x) x = data x"
proof -
  have "map (\<lambda>i. data x ! bcast_index (shape x) (shape x) i) [0..<prod_list (shape x)]
      = map (\<lambda>i. data x ! i) [0..<prod_list (shape x)]"
    by (rule map_cong) (simp_all only: bcast_index_def diff_self_eq_0 drop_0 ravel_unravel atLeastLessThan_iff set_upt)
  also have "\<dots> = data x"
    using assms map_nth[of "data x"] by (simp add: wf_tensor_def numel_def)
  finally show ?thesis by (simp add: broadcast_to_def)
qed

lemma broadcast_to_scalar:
  "broadcast_to r (scalar_tensor m) = replicate (prod_list r) m"
  by (simp add: broadcast_to_def scalar_tensor_def bcast_index_def map_replicate_const)

lemma map2_replicate_right:
  "length xs = n \<Longrightarrow> map2 f xs (replicate n m) = map (\<lambda>v. f v m) xs"
  by (induction xs arbitrary: n) auto

lemma torch_binop_scalar:
  assumes "wf_tensor x"
  shows "torch_binop f x (scalar_tensor m) = Inr (x\<lparr>data := map (\<lambda>v. f v m) (data x)\<rparr>)"
proof -
  have len: "length (data x) = prod_list (shape x)"
    using assms by (simp add: wf_tensor_def numel_def)
  have sh: "shape (scalar_tensor m) = []" by (simp add: scalar_tensor_def)
  show ?thesis
    unfolding torch_binop_def broadcast2_def sh broadcast_shapes_scalar
    by (simp add: broadcast_to_self[OF assms] broadcast_to_scalar map2_replicate_right[OF len])
qed

lemma foldl_s_add_Val: "foldl s_add (Val a) (map Val rs) = Val (a + sum_list rs)"
  by (induction rs arbitrary: a) (simp_all add: add.assoc)

lemma s_sum_Val: "s_sum (map Val rs) = Val (sum_list rs)"
  by (simp add: s_sum_def foldl_s_add_Val)

lemma foldl_s_add_NaN: "foldl s_add NaN xs = NaN"
  by (induction xs) simp_all

lemma foldl_s_add_has_NaN: "NaN \<in> set xs \<Longrightarrow> foldl s_add a xs = NaN"
proof (induction xs arbitrary: a)
  case Nil
  then show ?case by simp
next
  case (Cons x xs)
  show ?case
  proof (cases "x = NaN")
    case True
    then show ?thesis by (cases a) (simp_all add: foldl_s_add_NaN)
  next
    case False
    with Cons show ?thesis by simp
  qed
qed

lemma exact_data: "exact x \<Longrightarrow> \<exists>rs. data x = map Val rs"
proof -
  have "list_all (\<lambda>v. v \<noteq> NaN) xs \<Longrightarrow> \<exists>rs. xs = map Val rs" for xs
  proof (induction xs)
    case Nil
    then show ?case by simp
  next
    case (Cons v vs)
    then obtain rs where "vs = map Val rs" by auto
    moreover from Cons.prems obtain r where "v = Val r" by (cases v) auto
    ultimately have "v # vs = map Val (r # rs)" by simp
    then show ?case by (rule exI)
  qed
  then show "exact x \<Longrightarrow> \<exists>rs. data x = map Val rs" by (simp add: exact_def)
qed

lemma not_exact_NaN: "\<not> exact x \<Longrightarrow> NaN \<in> set (data x)"
  by (auto simp: exact_def list_all_iff)

lemma CenteredLayer_forward_eq:
  "wf_tensor x \<Longrightarrow>
   CenteredLayer_forward x = Inr (x\<lparr>data := map (\<lambda>v. s_sub v (item (torch_mean x))) (data x)\<rparr>)"
  unfolding CenteredLayer_forward_def torch_sub_def
  using torch_binop_scalar[of x s_sub "item (torch_mean x)"]
  by (simp add: torch_mean_def item_def scalar_tensor_def)

text \<open>The three kinds of input: no entries, a NaN among the entries, rational entries.\<close>

lemma centered_empty:
  assumes "wf_tensor x" "numel x = 0"
  shows "CenteredLayer_forward x = Inr x"
proof -
  from assms have "data x = []" by (simp add: wf_tensor_def)
  then show ?thesis by (simp add: CenteredLayer_forward_eq[OF assms(1)])
qed

lemma centered_nan:
  assumes "wf_tensor x" "\<not> exact x"
  shows "CenteredLayer_forward x = Inr (x\<lparr>data := replicate (numel x) NaN\<rparr>)"
proof -
  have "s_sum (data x) = NaN"
    using not_exact_NaN[OF assms(2)] by (simp add: s_sum_def foldl_s_add_has_NaN)
  then have "item (torch_mean x) = NaN"
    by (simp add: torch_mean_def item_def scalar_tensor_def)
  moreover have "map (\<lambda>v. s_sub v NaN) xs = replicate (length xs) NaN" for xs
    by (induction xs) simp_all
  ultimately show ?thesis
    using assms(1) by (simp add: CenteredLayer_forward_eq wf_tensor_def)
qed

lemma centered_exact:
  assumes "wf_tensor x" "data x = map Val rs" "rs \<noteq> []"
  shows "CenteredLayer_forward x =
         Inr (x\<lparr>data := map (\<lambda>r. Val (r - sum_list rs / of_nat (length rs))) rs\<rparr>)"
proof -
  have n: "numel x = length rs" using assms by (simp add: wf_tensor_def)
  then have "item (torch_mean x) = Val (sum_list rs / of_nat (length rs))"
    using assms by (simp add: torch_mean_def item_def scalar_tensor_def s_sum_Val)
  then show ?thesis
    using assms by (simp add: CenteredLayer_forward_eq comp_def)
qed

lemma sum_list_centered:
  fixes rs :: "rat list"
  assumes "rs \<noteq> []"
  shows "sum_list (map (\<lambda>r. r - sum_list rs / of_nat (length rs)) rs) = 0"
proof -
  have "sum_list (map (\<lambda>r. r - c) rs) = sum_list rs - of_nat (length rs) * c" for c :: rat
    by (induction rs) (simp_all add: algebra_simps)
  then show ?thesis using assms by simp
qed

lemma centered_idem:
  assumes wf: "wf_tensor x" and fw: "CenteredLayer_forward x = Inr y"
  shows "CenteredLayer_forward y = Inr y \<and> wf_tensor y \<and> shape y = shape x"
proof -
  consider (empty) "numel x = 0" | (nan) "numel x \<noteq> 0" "\<not> exact x" | (ex) "numel x \<noteq> 0" "exact x"
    by blast
  then show ?thesis
  proof cases
    case empty
    with wf fw show ?thesis by (simp add: centered_empty)
  next
    case nan
    from fw have y: "y = x\<lparr>data := replicate (numel x) NaN\<rparr>"
      by (simp add: centered_nan[OF wf nan(2)])
    have wfy: "wf_tensor y" by (simp add: y wf_tensor_def numel_def)
    have "NaN \<in> set (data y)" using nan(1) by (simp add: y)
    then have "\<not> exact y" by (auto simp: exact_def list_all_iff)
    from centered_nan[OF wfy this] show ?thesis
      using wfy by (simp add: y numel_def)
  next
    case ex
    from exact_data[OF ex(2)] obtain rs where rs: "data x = map Val rs" ..
    with wf ex(1) have ne: "rs \<noteq> []" by (auto simp: wf_tensor_def)
    let ?cs = "map (\<lambda>r. r - sum_list rs / of_nat (length rs)) rs"
    from fw have y: "y = x\<lparr>data := map Val ?cs\<rparr>"
      by (simp add: centered_exact[OF wf rs ne] comp_def)
    have wfy: "wf_tensor y" using wf rs by (simp add: y wf_tensor_def numel_def)
    have "CenteredLayer_forward y = Inr (y\<lparr>data := map (\<lambda>r. Val (r - sum_list ?cs / of_nat (length ?cs))) ?cs\<rparr>)"
      by (rule centered_exact[OF wfy]) (simp_all add: y ne)
    also have "sum_list ?cs = 0" by (rule sum_list_centered[OF ne])
    finally show ?thesis using wfy by (simp add: y comp_def)
  qed
qed

lemma centered_mean_zero:
  assumes wf: "wf_tensor x" and ex: "exact x" and ne: "0 < numel x"
    and fw: "CenteredLayer_forward x = Inr y"
  shows "torch_mean y = scalar_tensor (Val 0)"
proof -
  from exact_data[OF ex] obtain rs where rs: "data x = map Val rs" ..
  with wf ne have nn: "rs \<noteq> []" by (auto simp: wf_tensor_def)
  let ?cs = "map (\<lambda>r. r - sum_list rs / of_nat (length rs)) rs"
  from fw have y: "y = x\<lparr>data := map Val ?cs\<rparr>"
    by (simp add: centered_exact[OF wf rs nn] comp_def)
  have "s_sum (data y) = Val (sum_list ?cs)" unfolding y using s_sum_Val[of ?cs] by simp
  then have "s_sum (data y) = Val 0" by (simp only: sum_list_centered[OF nn])
  moreover have "numel y \<noteq> 0" using ne by (simp add: y numel_def)
  ultimately show ?thesis by (simp add: torch_mean_def)
qed

section \<open>Facts about the layers\<close>

lemma broadcast_shapes_last: "broadcast_shapes (xs @ [u]) [u] = Some (xs @ [u])"
  by (simp add: broadcast_shapes_def broadcast_rev_Nil2)

lemma torch_add_last:
  "shape y = xs @ [u] \<Longrightarrow> shape b = [u] \<Longrightarrow> \<exists>r. torch_add y b = Inr r \<and> shape r = xs @ [u]"
  by (simp add: torch_add_def torch_binop_def broadcast2_def broadcast_shapes_last)

lemma torch_matmul_matrix:
  assumes "shape w = [k, u]"
  shows "torch_matmul x w =
     (if shape x = [] \<or> last (shape x) \<noteq> k then Inl RuntimeError
      else Inr \<lparr>shape = butlast (shape x) @ [u],
              data = matmul_data (prod_list (butlast (shape x))) k u (data x) (data w)\<rparr>)"
  using assms by (simp add: torch_matmul_def)

lemma MyLinear_init_eq:
  "MyLinear_init g n u s =
     (MyLinear (next_addr s) \<lparr>weight = next_addr s + 1, bias = next_addr s + 2\<rparr>,
      s\<lparr>heap := (heap s)
            (next_addr s + 1 := \<lparr>shape = [n, u], data = draws g (rng_pos s) (n * u)\<rparr>,
             next_addr s + 2 := \<lparr>shape = [u], data = draws g (rng_pos s + n * u) u\<rparr>),
        next_addr := next_addr s + 3,
        rng_pos := rng_pos s + n * u + u\<rparr>)"
  by (simp add: MyLinear_init_def new_id_def torch_randn_def alloc_def)

lemma length_draws: "length (draws g pos n) = n"
  by (simp add: draws_def)

lemma MyLinear_forward_fails:
  assumes "shape (heap s (weight p)) = [k, u]"
    and "shape x = [] \<or> last (shape x) \<noteq> k"
  shows "MyLinear_forward s p x = Inl RuntimeError"
  using assms(2) by (auto simp: MyLinear_forward_def torch_matmul_matrix[OF assms(1)])

lemma MyLinear_forward_succeeds:
  assumes w: "shape (heap s (weight p)) = [k, u]" and b: "shape (heap s (bias p)) = [u]"
    and x: "shape x \<noteq> []" "last (shape x) = k"
  shows "\<exists>y. MyLinear_forward s p x = Inr y \<and> shape y = butlast (shape x) @ [u]"
proof -
  let ?y = "\<lparr>shape = butlast (shape x) @ [u],
             data = matmul_data (prod_list (butlast (shape x))) k u (data x) (data (heap s (weight p)))\<rparr>"
  have y: "torch_matmul x (heap s (weight p)) = Inr ?y"
    using x by (simp add: torch_matmul_matrix[OF w])
  have "shape ?y = butlast (shape x) @ [u]" by simp
  from torch_add_last[OF this b] y show ?thesis
    by (simp add: MyLinear_forward_def)
qed

section \<open>Facts about the networks of parameters.ipynb\<close>

lemma nn_Linear_eq:
  "nn_Linear g i o' s =
     (Linear (next_addr s) \<lparr>weight = next_addr s + 1, bias = next_addr s + 2\<rparr>,
      s\<lparr>heap := (heap s)
            (next_addr s + 1 := \<lparr>shape = [o', i], data = draws g (rng_pos s) (o' * i)\<rparr>,
             next_addr s + 2 := \<lparr>shape = [o'], data = draws g (rng_pos s + o' * i) o'\<rparr>),
        next_addr := next_addr s + 3,
        rng_pos := rng_pos s + o' * i + o'\<rparr>)"
  by (simp add: nn_Linear_def new_id_def torch_randn_def alloc_def)

lemma first_net_eq:
  "first_net g s =
     (Sequential (next_addr s + 7)
        [Linear (next_addr s) \<lparr>weight = next_addr s + 1, bias = next_addr s + 2\<rparr>,
         ReLU (next_addr s + 3),
         Linear (next_addr s + 4) \<lparr>weight = next_addr s + 5, bias = next_addr s + 6\<rparr>],
      s\<lparr>heap := (heap s)
            (next_addr s + 1 := \<lparr>shape = [8, 4], data = draws g (rng_pos s) 32\<rparr>,
             next_addr s + 2 := \<lparr>shape = [8], data = draws g (rng_pos s + 32) 8\<rparr>,
             next_addr s + 5 := \<lparr>shape = [1, 8], data = draws g (rng_pos s + 40) 8\<rparr>,
             next_addr s + 6 := \<lparr>shape = [1], data = draws g (rng_pos s + 48) 1\<rparr>),
        next_addr := next_addr s + 8,
        rng_pos := rng_pos s + 49\<rparr>)"
  by (simp add: first_net_def nn_Linear_eq nn_ReLU_def nn_Sequential_def new_id_def add.commute)

lemma tied_net_eq:
  "tied_net g s =
     (Sequential (next_addr s + 12)
        [Linear (next_addr s + 3) \<lparr>weight = next_addr s + 4, bias = next_addr s + 5\<rparr>,
         ReLU (next_addr s + 6),
         Linear (next_addr s) \<lparr>weight = next_addr s + 1, bias = next_addr s + 2\<rparr>,
         ReLU (next_addr s + 7),
         Linear (next_addr s) \<lparr>weight = next_addr s + 1, bias = next_addr s + 2\<rparr>,
         ReLU (next_addr s + 8),
         Linear (next_addr s + 9) \<lparr>weight = next_addr s + 10, bias = next_addr s + 11\<rparr>],
      s\<lparr>heap := (heap s)
            (next_addr s + 1 := \<lparr>shape = [8, 8], data = draws g (rng_pos s) 64\<rparr>,
             next_addr s + 2 := \<lparr>shape = [8], data = draws g (rng_pos s + 64) 8\<rparr>,
             next_addr s + 4 := \<lparr>shape = [8, 4], data = draws g (rng_pos s + 72) 32\<rparr>,
             next_addr s + 5 := \<lparr>shape = [8], data = draws g (rng_pos s + 104) 8\<rparr>,
             next_addr s + 10 := \<lparr>shape = [1, 8], data = draws g (rng_pos s + 112) 8\<rparr>,
             next_addr s + 11 := \<lparr>shape = [1], data = draws g (rng_pos s + 120) 1\<rparr>),
        next_addr := next_addr s + 13,
        rng_pos := rng_pos s + 121\<rparr>)"
  by (simp add: tied_net_def nn_Linear_eq nn_ReLU_def nn_Sequential_def new_id_def add.commute)

lemma init_normal_Linear:
  assumes "weight_at net 0 = Inr w" "bias_at net 0 = Inr b"
  shows "init_normal g net (Linear i p) s = Inr (nn_init_zeros b (nn_init_normal g w s))"
  using assms by (simp add: init_normal_def)

lemma init_normal_other: "\<not> is_Linear m \<Longrightarrow> init_normal g net m s = Inr s"
  by (simp add: init_normal_def)

lemma heap_init_zeros:
  "heap (nn_init_zeros b s) = (heap s)(b := (heap s b)\<lparr>data := replicate (numel (heap s b)) (Val 0)\<rparr>)"
  by (simp add: nn_init_zeros_def nn_init_constant_def)

lemma heap_init_normal:
  "heap (nn_init_normal g w s) = (heap s)(w := (heap s w)\<lparr>data := draws g (rng_pos s) (numel (heap s w))\<rparr>)"
  by (simp add: nn_init_normal_def)

lemma rng_init_zeros: "rng_pos (nn_init_zeros b s) = rng_pos s"
  by (simp add: nn_init_zeros_def nn_init_constant_def)

lemma rng_init_normal: "rng_pos (nn_init_normal g w s) = rng_pos s + numel (heap s w)"
  by (simp add: nn_init_normal_def)

lemma F_linear_shape:
  assumes w: "shape w = [o', i]" and b: "shape b = [o']" and x: "shape x = [n, i]"
  shows "\<exists>y. F_linear x w b = Inr y \<and> shape y = [n, o']"
proof -
  obtain wt where wt: "torch_t w = Inr wt" "shape wt = [i, o']"
    using w by (simp add: torch_t_def)
  let ?y = "\<lparr>shape = [n, o'], data = matmul_data n i o' (data x) (data wt)\<rparr>"
  have mm: "torch_matmul x wt = Inr ?y"
    using x by (simp add: torch_matmul_matrix[OF wt(2)])
  have "shape ?y = [n] @ [o']" by simp
  from torch_add_last[OF this b] wt(1) mm show ?thesis
    by (simp add: F_linear_def)
qed

lemma shape_relu: "shape (torch_relu x) = shape x"
  by (simp add: torch_relu_def)

lemma broadcast_rev_self: "broadcast_rev xs xs = Some xs"
  by (induction xs) simp_all

lemma map2_s_eq_self: "list_all (\<lambda>v. v \<noteq> NaN) xs \<Longrightarrow> map2 s_eq xs xs = replicate (length xs) True"
proof (induction xs)
  case Nil
  then show ?case by simp
next
  case (Cons v vs)
  then show ?case by (cases v) simp_all
qed

lemma torch_eq_self:
  assumes "wf_tensor t" "exact t"
  shows "torch_eq t t = Inr (shape t, replicate (numel t) True)"
  using assms map2_s_eq_self[of "data t"]
  by (simp add: torch_eq_def broadcast2_def broadcast_shapes_def broadcast_rev_self
      broadcast_to_self exact_def wf_tensor_def)

lemma first_row:
  assumes "shape t = Suc d # ds" "wf_tensor t" "exact t"
  shows "\<exists>r. torch_getitem0 t = Inr r \<and> shape r = ds \<and> wf_tensor r \<and> exact r"
proof -
  have "length (data t) = Suc d * prod_list ds"
    using assms by (simp add: wf_tensor_def numel_def)
  then have "prod_list ds \<le> length (data t)" by simp
  moreover have "list_all P (take k xs)" if "list_all P xs" for P k and xs :: "scalar list"
    using that by (auto simp: list_all_iff dest: in_set_takeD)
  ultimately show ?thesis
    using assms by (simp add: torch_getitem0_def wf_tensor_def numel_def exact_def)
qed

lemma exact_draws: "exact \<lparr>shape = sh, data = draws g p n\<rparr>"
  by (simp add: exact_def draws_def list_all_iff)

lemma rows_equal_self:
  assumes wd: "weight_data t net i = Inr W" "weight_data t net j = Inr W"
    and W: "shape W = [8, 8]" "wf_tensor W" "exact W"
  shows "weight_rows_equal t net i j = Inr (replicate 8 True)"
proof -
  have "shape W = Suc 7 # [8]" using W(1) by simp
  from first_row[OF this W(2,3)] obtain r where
    r: "torch_getitem0 W = Inr r" "shape r = [8]" "wf_tensor r" "exact r" by blast
  have "torch_eq r r = Inr ([8], replicate 8 True)"
    using torch_eq_self[OF r(3,4)] r(2) by (simp add: numel_def)
  then show ?thesis
    by (simp add: weight_rows_equal_def wd r(1))
qed

lemma init_normal_Inl:
  "init_normal g net m s = Inl e \<longleftrightarrow>
      is_Linear m \<and>
      (weight_at net 0 = Inl e \<or> (\<exists>w. weight_at net 0 = Inr w \<and> bias_at net 0 = Inl e))"
  by (auto simp: init_normal_def Let_def split: if_splits sum.splits)

lemma init_normal_Inr:
  "init_normal g net m s = Inr s' \<longleftrightarrow>
      (if is_Linear m
       then \<exists>w b. weight_at net 0 = Inr w \<and> bias_at net 0 = Inr b \<and>
                  s' = nn_init_zeros b (nn_init_normal g w s)
       else s' = s)"
  by (auto simp: init_normal_def Let_def split: if_splits sum.splits)

section \<open>Facts about the training loop\<close>

lemma batch_loop_recording:
  "batch_loop (recording_api bs') bs s = Inr (s @ concat (map calls_of_batch bs))"
  by (induction bs arbitrary: s) (simp_all add: recording_api_def calls_of_batch_def)

lemma epoch_loop_recording:
  "epoch_loop (recording_api bs) full es s = Inr (s @ concat (map (calls_of_epoch bs full) es))"
proof (induction es arbitrary: s)
  case Nil
  then show ?case by simp
next
  case (Cons e es)
  have it: "iterate (recording_api bs) s = Inr (bs, s @ [Iterate])"
    and nl: "net_loss (recording_api bs) full t = Inr (full, t @ [NetLoss full])"
    and pr: "print_loss (recording_api bs) e full t = t @ [Print e full]" for t
    by (simp_all add: recording_api_def)
  show ?case
    by (simp add: it batch_loop_recording nl pr Cons.IH calls_of_epoch_def)
qed

lemma count_steps_batch: "count_list (concat (map calls_of_batch bs)) Step = length bs"
  by (induction bs) (simp_all add: calls_of_batch_def)

lemma count_steps_epochs:
  "count_list (concat (map (calls_of_epoch bs full) es)) Step = length es * length bs"
  by (induction es) (simp_all add: calls_of_epoch_def count_steps_batch)


lemma batch_loop_error:
  "batch_loop api bs s = Inl e \<Longrightarrow>
     (\<exists>b t. net_loss api b t = Inl e) \<or> (\<exists>t. zero_grad api t = Inl e) \<or>
     (\<exists>l t. backward api l t = Inl e) \<or> (\<exists>t. step api t = Inl e)"
proof (induction bs arbitrary: s)
  case Nil
  then show ?case by simp
next
  case (Cons b bs)
  show ?case
  proof (cases "net_loss api b s")
    case (Inl e1)
    with Cons.prems show ?thesis by auto
  next
    case (Inr ls)
    obtain l s1 where ls: "ls = (l, s1)" by (cases ls)
    show ?thesis
    proof (cases "zero_grad api s1")
      case (Inl e2)
      with Cons.prems Inr ls show ?thesis by auto
    next
      case z: (Inr s2)
      show ?thesis
      proof (cases "backward api l s2")
        case (Inl e3)
        with Cons.prems Inr ls z show ?thesis by auto
      next
        case bw: (Inr s3)
        show ?thesis
        proof (cases "step api s3")
          case (Inl e4)
          with Cons.prems Inr ls z bw show ?thesis by auto
        next
          case st: (Inr s4)
          with Cons.prems Inr ls z bw have "batch_loop api bs s4 = Inl e" by simp
          then show ?thesis by (rule Cons.IH)
        qed
      qed
    qed
  qed
qed

lemma epoch_loop_error:
  "epoch_loop api full es s = Inl e \<Longrightarrow>
     (\<exists>t. iterate api t = Inl e) \<or>
     (\<exists>b t. net_loss api b t = Inl e) \<or> (\<exists>t. zero_grad api t = Inl e) \<or>
     (\<exists>l t. backward api l t = Inl e) \<or> (\<exists>t. step api t = Inl e)"
proof (induction es arbitrary: s)
  case Nil
  then show ?case by simp
next
  case (Cons ep es)
  show ?case
  proof (cases "iterate api s")
    case (Inl e1)
    with Cons.prems show ?thesis by auto
  next
    case (Inr bs1)
    obtain bs s1 where b: "bs1 = (bs, s1)" by (cases bs1)
    show ?thesis
    proof (cases "batch_loop api bs s1")
      case (Inl e2)
      with Cons.prems Inr b have "batch_loop api bs s1 = Inl e" by simp
      from batch_loop_error[OF this] show ?thesis by blast
    next
      case bl: (Inr s2)
      show ?thesis
      proof (cases "net_loss api full s2")
        case (Inl e3)
        with Cons.prems Inr b bl show ?thesis by auto
      next
        case nl: (Inr ls)
        obtain l s3 where ls: "ls = (l, s3)" by (cases ls)
        with Cons.prems Inr b bl nl
        have "epoch_loop api full es (print_loss api ep l s3) = Inl e" by simp
        then show ?thesis by (rule Cons.IH)
      qed
    qed
  qed
qed

text \<open>The loops pass on the first error and nothing else.\<close>

lemma epoch_loop_append:
  "epoch_loop api full (es @ es') s =
     (case epoch_loop api full es s of Inl e \<Rightarrow> Inl e | Inr s' \<Rightarrow> epoch_loop api full es' s')"
  by (induction es arbitrary: s) (auto split: sum.splits prod.splits)

lemma train_Suc:
  "train api full (Suc n) s =
     (case train api full n s of Inl e \<Rightarrow> Inl e | Inr s' \<Rightarrow> epoch_loop api full [Suc n] s')"
  by (simp add: train_def epoch_loop_append)

lemma batch_loop_Cons_Inl:
  "batch_loop api (b # bs) st = Inl e \<longleftrightarrow>
      net_loss api b st = Inl e \<or>
      (\<exists>l s1. net_loss api b st = Inr (l, s1) \<and>
         (zero_grad api s1 = Inl e \<or>
          (\<exists>s2. zero_grad api s1 = Inr s2 \<and>
             (backward api l s2 = Inl e \<or>
              (\<exists>s3. backward api l s2 = Inr s3 \<and>
                 (step api s3 = Inl e \<or>
                  (\<exists>s4. step api s3 = Inr s4 \<and> batch_loop api bs s4 = Inl e)))))))"
  by (auto split: sum.splits prod.splits)

lemma batch_loop_Cons_Inr:
  "batch_loop api (b # bs) st = Inr r \<longleftrightarrow>
      (\<exists>l s1 s2 s3 s4. net_loss api b st = Inr (l, s1) \<and> zero_grad api s1 = Inr s2 \<and>
         backward api l s2 = Inr s3 \<and> step api s3 = Inr s4 \<and> batch_loop api bs s4 = Inr r)"
  by (auto split: sum.splits prod.splits)

lemma epoch_loop_Cons_Inl:
  "epoch_loop api full (epoch # epochs) st = Inl e \<longleftrightarrow>
      iterate api st = Inl e \<or>
      (\<exists>bs s1. iterate api st = Inr (bs, s1) \<and>
         (batch_loop api bs s1 = Inl e \<or>
          (\<exists>s2. batch_loop api bs s1 = Inr s2 \<and>
             (net_loss api full s2 = Inl e \<or>
              (\<exists>l s3. net_loss api full s2 = Inr (l, s3) \<and>
                 epoch_loop api full epochs (print_loss api epoch l s3) = Inl e)))))"
  by (auto split: sum.splits prod.splits)

lemma epoch_loop_Cons_Inr:
  "epoch_loop api full (epoch # epochs) st = Inr r \<longleftrightarrow>
      (\<exists>bs s1 s2 l s3. iterate api st = Inr (bs, s1) \<and> batch_loop api bs s1 = Inr s2 \<and>
         net_loss api full s2 = Inr (l, s3) \<and>
         epoch_loop api full epochs (print_loss api epoch l s3) = Inr r)"
  by (auto split: sum.splits prod.splits)

section \<open>Properties of the notebooks' code\<close>

subsection \<open>C3: CenteredLayer.forward centres its input and is idempotent\<close>

text \<open>
  C3, as amended. For every tensor \<open>x\<close>, \<open>CenteredLayer.forward(x) = x - x.mean()\<close>
  returns a tensor \<open>y\<close> on which \<open>forward\<close> returns \<open>y\<close> again (idempotence); and when \<open>x\<close>
  has at least one entry and all its entries are numbers, the mean of \<open>y\<close> is zero.
\<close>

theorem CenteredLayer_forward_zero_mean:
  assumes "wf_tensor x"
  shows "\<exists>y. CenteredLayer_forward x = Inr y \<and> CenteredLayer_forward y = Inr y \<and>
             (exact x \<and> 0 < numel x \<longrightarrow> torch_mean y = scalar_tensor (Val 0))"
proof -
  obtain y where y: "CenteredLayer_forward x = Inr y"
    using CenteredLayer_forward_eq[OF assms] by blast
  have "CenteredLayer_forward y = Inr y"
    using centered_idem[OF assms y] by simp
  moreover have "exact x \<and> 0 < numel x \<longrightarrow> torch_mean y = scalar_tensor (Val 0)"
    using centered_mean_zero[OF assms _ _ y] by blast
  ultimately show ?thesis using y by blast
qed

text \<open>The tensor of the notebook, \<open>[1, 2, 3, 4, 5]\<close>, is centred to \<open>[-2, -1, 0, 1, 2]\<close>.\<close>

theorem CenteredLayer_forward_zero_mean_witness:
  "wf_tensor \<lparr>shape = [5], data = [Val 1, Val 2, Val 3, Val 4, Val 5]\<rparr> \<and>
   exact \<lparr>shape = [5], data = [Val 1, Val 2, Val 3, Val 4, Val 5]\<rparr> \<and>
   0 < numel \<lparr>shape = [5], data = [Val 1, Val 2, Val 3, Val 4, Val 5]\<rparr> \<and>
   CenteredLayer_forward \<lparr>shape = [5], data = [Val 1, Val 2, Val 3, Val 4, Val 5]\<rparr>
     = Inr \<lparr>shape = [5], data = [Val (- 2), Val (- 1), Val 0, Val 1, Val 2]\<rparr> \<and>
   CenteredLayer_forward \<lparr>shape = [5], data = [Val (- 2), Val (- 1), Val 0, Val 1, Val 2]\<rparr>
     = Inr \<lparr>shape = [5], data = [Val (- 2), Val (- 1), Val 0, Val 1, Val 2]\<rparr> \<and>
   torch_mean \<lparr>shape = [5], data = [Val (- 2), Val (- 1), Val 0, Val 1, Val 2]\<rparr>
     = scalar_tensor (Val 0)"
proof -
  let ?x = "\<lparr>shape = [5], data = [Val 1, Val 2, Val 3, Val 4, Val 5]\<rparr>"
  let ?y = "\<lparr>shape = [5], data = [Val (- 2), Val (- 1), Val 0, Val 1, Val 2]\<rparr>"
  have wf: "wf_tensor ?x" by (simp add: wf_tensor_def numel_def)
  have ex: "exact ?x" by (simp add: exact_def)
  have ne: "0 < numel ?x" by (simp add: numel_def)
  have fw: "CenteredLayer_forward ?x = Inr ?y" by code_simp
  from CenteredLayer_forward_zero_mean[OF wf] fw ex ne
  have "CenteredLayer_forward ?y = Inr ?y \<and> torch_mean ?y = scalar_tensor (Val 0)" by simp
  with wf ex ne fw show ?thesis by simp
qed

text \<open>
  C3 as stated promises mean zero for every input. On the tensor without entries
  \<open>x.mean()\<close> is \<open>0 / 0\<close>: \<open>forward\<close> returns the same empty tensor, whose mean is NaN, not
  zero.
\<close>

theorem CenteredLayer_forward_empty_mean_nan:
  "wf_tensor \<lparr>shape = [0], data = []\<rparr> \<and> exact \<lparr>shape = [0], data = []\<rparr> \<and>
   CenteredLayer_forward \<lparr>shape = [0], data = []\<rparr> = Inr \<lparr>shape = [0], data = []\<rparr> \<and>
   torch_mean \<lparr>shape = [0], data = []\<rparr> = scalar_tensor NaN \<and>
   torch_mean \<lparr>shape = [0], data = []\<rparr> \<noteq> scalar_tensor (Val 0)"
proof -
  have wf: "wf_tensor \<lparr>shape = [0], data = []\<rparr>" by (simp add: wf_tensor_def numel_def)
  have "CenteredLayer_forward \<lparr>shape = [0], data = []\<rparr> = Inr \<lparr>shape = [0], data = []\<rparr>"
    using centered_empty[OF wf] by (simp add: numel_def)
  then show ?thesis
    using wf by (simp add: exact_def torch_mean_def numel_def scalar_tensor_def)
qed

subsection \<open>C5: MyLinear is an entity type of the repository\<close>

text \<open>
  C5, as amended. The repository defines a stateful entity type of its own: the class
  \<open>MyLinear\<close>. Constructing \<open>MyLinear(in_units, units)\<close> creates a module that owns two
  new, distinct parameter objects, a weight of shape \<open>(in_units, units)\<close> and a bias of
  shape \<open>(units)\<close>, each holding as many entries as its shape announces, at addresses
  that were not allocated before the call and are allocated after it, and leaves the
  objects that existed before as they were; \<open>forward\<close> maps every input of shape
  \<open>(n, in_units)\<close> to an output of shape \<open>(n, units)\<close>.
\<close>

theorem MyLinear_owns_parameters:
  assumes "MyLinear_init g in_units units s = (m, s')"
  shows "\<exists>i p. m = MyLinear i p \<and> weight p \<noteq> bias p \<and>
           next_addr s \<le> weight p \<and> weight p < next_addr s' \<and>
           next_addr s \<le> bias p \<and> bias p < next_addr s' \<and>
           shape (heap s' (weight p)) = [in_units, units] \<and> wf_tensor (heap s' (weight p)) \<and>
           shape (heap s' (bias p)) = [units] \<and> wf_tensor (heap s' (bias p)) \<and>
           (\<forall>a. a < next_addr s \<longrightarrow> heap s' a = heap s a) \<and>
           (\<forall>x n. shape x = [n, in_units] \<longrightarrow>
              (\<exists>y. MyLinear_forward s' p x = Inr y \<and> shape y = [n, units]))"
proof -
  let ?p = "\<lparr>weight = next_addr s + 1, bias = next_addr s + 2\<rparr>"
  from assms have m: "m = MyLinear (next_addr s) ?p"
    and s': "s' = s\<lparr>heap := (heap s)
            (next_addr s + 1 := \<lparr>shape = [in_units, units], data = draws g (rng_pos s) (in_units * units)\<rparr>,
             next_addr s + 2 := \<lparr>shape = [units], data = draws g (rng_pos s + in_units * units) units\<rparr>),
        next_addr := next_addr s + 3,
        rng_pos := rng_pos s + in_units * units + units\<rparr>"
    by (simp_all add: MyLinear_init_eq)
  have w: "shape (heap s' (weight ?p)) = [in_units, units]" by (simp add: s')
  have b: "shape (heap s' (bias ?p)) = [units]" by (simp add: s')
  have wfw: "wf_tensor (heap s' (weight ?p))"
    by (simp add: s' wf_tensor_def numel_def length_draws)
  have wfb: "wf_tensor (heap s' (bias ?p))"
    by (simp add: s' wf_tensor_def numel_def length_draws)
  have old: "\<forall>a. a < next_addr s \<longrightarrow> heap s' a = heap s a" by (simp add: s')
  have fw: "\<exists>y. MyLinear_forward s' ?p x = Inr y \<and> shape y = [n, units]"
    if "shape x = [n, in_units]" for x n
    using MyLinear_forward_succeeds[OF w b, of x] that by simp
  have fresh: "next_addr s \<le> weight ?p \<and> weight ?p < next_addr s' \<and>
      next_addr s \<le> bias ?p \<and> bias ?p < next_addr s'"
    by (simp add: s')
  have "weight ?p \<noteq> bias ?p" by simp
  with m w b wfw wfb old fw fresh show ?thesis by blast
qed

text \<open>\<open>dense = MyLinear(5, 3)\<close>, the layer of the notebook, on a batch of two inputs.\<close>

theorem MyLinear_owns_parameters_witness:
  "(case MyLinear_init (\<lambda>i. of_nat i) 5 3
           \<lparr>heap = (\<lambda>a. \<lparr>shape = [0], data = []\<rparr>), next_addr = 0, rng_pos = 0\<rparr> of
      (m, s') \<Rightarrow>
        m = MyLinear 0 \<lparr>weight = 1, bias = 2\<rparr> \<and>
        shape (heap s' 1) = [5, 3] \<and> shape (heap s' 2) = [3] \<and>
        shape \<lparr>shape = [2, 5], data = map Val [1, 0, 0, 0, 0, 0, 1, 0, 0, 0]\<rparr> = [2, 5] \<and>
        (\<exists>y. MyLinear_forward s' \<lparr>weight = 1, bias = 2\<rparr>
                \<lparr>shape = [2, 5], data = map Val [1, 0, 0, 0, 0, 0, 1, 0, 0, 0]\<rparr> = Inr y \<and>
             shape y = [2, 3]))"
proof -
  let ?s = "\<lparr>heap = (\<lambda>a. \<lparr>shape = [0], data = []\<rparr>), next_addr = 0, rng_pos = 0\<rparr>"
  let ?g = "\<lambda>i. of_nat i :: rat"
  obtain m s' where ms: "MyLinear_init ?g 5 3 ?s = (m, s')" by (cases "MyLinear_init ?g 5 3 ?s")
  have m: "m = MyLinear 0 \<lparr>weight = 1, bias = 2\<rparr>"
    using ms by (auto simp: MyLinear_init_eq numeral_2_eq_2)
  from MyLinear_owns_parameters[OF ms] m
  have "shape (heap s' 1) = [5, 3] \<and> shape (heap s' 2) = [3] \<and>
        (\<forall>x n. shape x = [n, 5] \<longrightarrow>
           (\<exists>y. MyLinear_forward s' \<lparr>weight = 1, bias = 2\<rparr> x = Inr y \<and> shape y = [n, 3]))"
    by auto
  then show ?thesis using m by (simp add: ms)
qed

text \<open>
  C5 as stated denies that a class of the repository owns weight and bias parameters whose
  shapes are fixed at construction. \<open>MyLinear(5, 3)\<close> does: with a generator that hands
  out 0, 1, 2, ... the new object owns the \<open>5 \<times> 3\<close> weight and the bias of 3 entries
  below, and its \<open>forward\<close> computes with them.
\<close>

theorem MyLinear_5_3_is_an_entity:
  "(case MyLinear_init (\<lambda>i. of_nat i) 5 3
           \<lparr>heap = (\<lambda>a. \<lparr>shape = [0], data = []\<rparr>), next_addr = 0, rng_pos = 0\<rparr> of
      (m, s') \<Rightarrow>
        m = MyLinear 0 \<lparr>weight = 1, bias = 2\<rparr> \<and>
        heap s' 1 = \<lparr>shape = [5, 3], data = map Val [0, 1, 2, 3, 4, 5, 6, 7, 8, 9, 10, 11, 12, 13, 14]\<rparr> \<and>
        heap s' 2 = \<lparr>shape = [3], data = map Val [15, 16, 17]\<rparr> \<and>
        MyLinear_forward s' \<lparr>weight = 1, bias = 2\<rparr>
            \<lparr>shape = [2, 5], data = map Val [1, 0, 0, 0, 0, 0, 1, 0, 0, 0]\<rparr>
          = Inr \<lparr>shape = [2, 3], data = map Val [15, 17, 19, 18, 20, 22]\<rparr>)"
  by code_simp

subsection \<open>C8: every exception is the library's\<close>

text \<open>
  C8. No function of the repository raises or catches an exception of its own, and none
  swallows one. \<open>MyLinear.forward\<close> fails exactly when its call of \<open>torch.matmul\<close> or of
  the addition fails, with that error, and returns what the addition returns otherwise;
  \<open>load_array\<close> fails exactly when one of the two library constructors fails, with that
  error, whatever the library's errors are, and returns what \<open>DataLoader\<close> returns
  otherwise. \<open>init_normal\<close> fails exactly on a Linear module for which reading
  \<open>net[0].weight\<close> or, after it, \<open>net[0].bias\<close> fails, with that error; otherwise it
  returns the store after the two initialisers, or the store as it was for a module that
  is not Linear. An error of the training loop is an error one of the library calls in it
  returned. The loop over the minibatches fails exactly when, for the first batch, the
  loss, \<open>zero_grad\<close>, \<open>backward\<close> or \<open>step\<close> fails after the calls before it succeeded,
  or when all four succeed and the loop over the remaining batches fails, with that error;
  the loop over the epochs fails exactly when iterating the loader, the loop over the
  minibatches, the loss on the full data or the remaining epochs fail, in this order;
  both return what the remaining rounds return otherwise, and the state as it is when
  no round remains. Training for \<open>k + 1\<close> epochs is training for \<open>k\<close> epochs, whose error
  is passed on, followed by epoch \<open>k + 1\<close>.
\<close>

theorem errors_come_from_the_library:
  "(MyLinear_forward s self x = Inl e \<longleftrightarrow>
      torch_matmul x (heap s (weight self)) = Inl e \<or>
      (\<exists>y. torch_matmul x (heap s (weight self)) = Inr y \<and>
           torch_add y (heap s (bias self)) = Inl e)) \<and>
   (MyLinear_forward s self x = Inr r \<longleftrightarrow>
      (\<exists>y. torch_matmul x (heap s (weight self)) = Inr y \<and>
           torch_add y (heap s (bias self)) = Inr r)) \<and>
   (load_array TD DL arrays n tr = Inl e' \<longleftrightarrow>
      TD arrays = Inl e' \<or> (\<exists>d. TD arrays = Inr d \<and> DL d n tr = Inl e')) \<and>
   (load_array TD DL arrays n tr = Inr l \<longleftrightarrow>
      (\<exists>d. TD arrays = Inr d \<and> DL d n tr = Inr l)) \<and>
   (init_normal g net m s = Inl e \<longleftrightarrow>
      is_Linear m \<and>
      (weight_at net 0 = Inl e \<or> (\<exists>w. weight_at net 0 = Inr w \<and> bias_at net 0 = Inl e))) \<and>
   (init_normal g net m s = Inr s' \<longleftrightarrow>
      (if is_Linear m
       then \<exists>w b. weight_at net 0 = Inr w \<and> bias_at net 0 = Inr b \<and>
                  s' = nn_init_zeros b (nn_init_normal g w s)
       else s' = s)) \<and>
   (train api full num_epochs st = Inl e'' \<longrightarrow>
      (\<exists>t. iterate api t = Inl e'') \<or>
      (\<exists>b t. net_loss api b t = Inl e'') \<or> (\<exists>t. zero_grad api t = Inl e'') \<or>
      (\<exists>l t. backward api l t = Inl e'') \<or> (\<exists>t. step api t = Inl e'')) \<and>
   batch_loop api [] st = Inr st \<and>
   (batch_loop api (b # bs) st = Inl e'' \<longleftrightarrow>
      net_loss api b st = Inl e'' \<or>
      (\<exists>l s1. net_loss api b st = Inr (l, s1) \<and>
         (zero_grad api s1 = Inl e'' \<or>
          (\<exists>s2. zero_grad api s1 = Inr s2 \<and>
             (backward api l s2 = Inl e'' \<or>
              (\<exists>s3. backward api l s2 = Inr s3 \<and>
                 (step api s3 = Inl e'' \<or>
                  (\<exists>s4. step api s3 = Inr s4 \<and> batch_loop api bs s4 = Inl e''))))))))  \<and>
   (batch_loop api (b # bs) st = Inr st' \<longleftrightarrow>
      (\<exists>l s1 s2 s3 s4. net_loss api b st = Inr (l, s1) \<and> zero_grad api s1 = Inr s2 \<and>
         backward api l s2 = Inr s3 \<and> step api s3 = Inr s4 \<and> batch_loop api bs s4 = Inr st')) \<and>
   epoch_loop api full [] st = Inr st \<and>
   (epoch_loop api full (epoch # epochs) st = Inl e'' \<longleftrightarrow>
      iterate api st = Inl e'' \<or>
      (\<exists>bs s1. iterate api st = Inr (bs, s1) \<and>
         (batch_loop api bs s1 = Inl e'' \<or>
          (\<exists>s2. batch_loop api bs s1 = Inr s2 \<and>
             (net_loss api full s2 = Inl e'' \<or>
              (\<exists>l s3. net_loss api full s2 = Inr (l, s3) \<and>
                 epoch_loop api full epochs (print_loss api epoch l s3) = Inl e'')))))) \<and>
   (epoch_loop api full (epoch # epochs) st = Inr st' \<longleftrightarrow>
      (\<exists>bs s1 s2 l s3. iterate api st = Inr (bs, s1) \<and> batch_loop api bs s1 = Inr s2 \<and>
         net_loss api full s2 = Inr (l, s3) \<and>
         epoch_loop api full epochs (print_loss api epoch l s3) = Inr st')) \<and>
   train api full 0 st = Inr st \<and>
   train api full (Suc k) st =
     (case train api full k st of
        Inl e \<Rightarrow> Inl e
      | Inr s' \<Rightarrow> epoch_loop api full [Suc k] s')"
proof -
  have b: "train api full num_epochs st = Inl e'' \<longrightarrow>
      (\<exists>t. iterate api t = Inl e'') \<or>
      (\<exists>b t. net_loss api b t = Inl e'') \<or> (\<exists>t. zero_grad api t = Inl e'') \<or>
      (\<exists>l t. backward api l t = Inl e'') \<or> (\<exists>t. step api t = Inl e'')"
    unfolding train_def using epoch_loop_error[of api full _ st e''] by blast
  have c: "(MyLinear_forward s self x = Inl e \<longleftrightarrow>
      torch_matmul x (heap s (weight self)) = Inl e \<or>
      (\<exists>y. torch_matmul x (heap s (weight self)) = Inr y \<and>
           torch_add y (heap s (bias self)) = Inl e)) \<and>
   (MyLinear_forward s self x = Inr r \<longleftrightarrow>
      (\<exists>y. torch_matmul x (heap s (weight self)) = Inr y \<and>
           torch_add y (heap s (bias self)) = Inr r))"
    by (auto simp: MyLinear_forward_def split: sum.splits)
  have d: "(load_array TD DL arrays n tr = Inl e' \<longleftrightarrow>
      TD arrays = Inl e' \<or> (\<exists>d. TD arrays = Inr d \<and> DL d n tr = Inl e')) \<and>
   (load_array TD DL arrays n tr = Inr l \<longleftrightarrow>
      (\<exists>d. TD arrays = Inr d \<and> DL d n tr = Inr l))"
    by (auto simp: load_array_def split: sum.splits)
  have t0: "train api full 0 st = Inr st" by (simp add: train_def)
  note rest = init_normal_Inl[of g net m s e] init_normal_Inr[of g net m s s']
    batch_loop.simps(1)[of api st] batch_loop_Cons_Inl[of api b bs st e'']
    batch_loop_Cons_Inr[of api b bs st st'] epoch_loop.simps(1)[of api full st]
    epoch_loop_Cons_Inl[of api full epoch epochs st e'']
    epoch_loop_Cons_Inr[of api full epoch epochs st st'] train_Suc[of api full k st]
  show ?thesis
    apply (intro conjI)
    apply (rule c[THEN conjunct1])
    apply (rule c[THEN conjunct2])
    apply (rule d[THEN conjunct1])
    apply (rule d[THEN conjunct2])
    apply (rule rest(1))
    apply (rule rest(2))
    apply (rule b)
    apply (rule rest(3))
    apply (rule rest(4))
    apply (rule rest(5))
    apply (rule rest(6))
    apply (rule rest(7))
    apply (rule rest(8))
    apply (rule t0)
    apply (rule rest(9))
    done
qed

text \<open>
  A batch of the wrong width makes \<open>torch.matmul\<close>, and so \<open>MyLinear.forward\<close>, raise the
  library's RuntimeError; arrays of different lengths make \<open>TensorDataset\<close>, and so
  \<open>load_array\<close>, raise the library's AssertionError; with a \<open>net\<close> that cannot be
  indexed \<open>init_normal\<close> raises the TypeError of \<open>net[0]\<close>; with a \<open>backward\<close> that raises,
  the training loop raises that error; with a \<open>step\<close> that raises ValueError, the loop
  over one minibatch, the loop over one epoch and the training for one epoch raise
  ValueError.
\<close>

theorem errors_come_from_the_library_witness:
  "torch_matmul \<lparr>shape = [2, 4], data = map Val [1, 2, 3, 4, 5, 6, 7, 8]\<rparr>
       \<lparr>shape = [5, 3], data = map Val [0, 1, 2, 3, 4, 5, 6, 7, 8, 9, 10, 11, 12, 13, 14]\<rparr>
     = Inl RuntimeError \<and>
   MyLinear_forward
       \<lparr>heap = (\<lambda>a. \<lparr>shape = [3], data = map Val [15, 16, 17]\<rparr>)
          (1 := \<lparr>shape = [5, 3], data = map Val [0, 1, 2, 3, 4, 5, 6, 7, 8, 9, 10, 11, 12, 13, 14]\<rparr>),
        next_addr = 3, rng_pos = 18\<rparr>
       \<lparr>weight = 1, bias = 2\<rparr>
       \<lparr>shape = [2, 4], data = map Val [1, 2, 3, 4, 5, 6, 7, 8]\<rparr>
     = Inl RuntimeError \<and>
   TensorDataset [\<lparr>shape = [2], data = [Val 1, Val 2]\<rparr>, \<lparr>shape = [3], data = [Val 3, Val 4, Val 5]\<rparr>]
     = Inl AssertionError \<and>
   load_array TensorDataset DataLoader
       [\<lparr>shape = [2], data = [Val 1, Val 2]\<rparr>, \<lparr>shape = [3], data = [Val 3, Val 4, Val 5]\<rparr>] 10 True
     = Inl AssertionError \<and>
   init_normal (\<lambda>i. of_nat i) (ReLU 0) (Linear 1 \<lparr>weight = 2, bias = 3\<rparr>)
       \<lparr>heap = (\<lambda>a. \<lparr>shape = [3], data = map Val [15, 16, 17]\<rparr>), next_addr = 4, rng_pos = 0\<rparr>
     = Inl TypeError \<and>
   weight_at (ReLU 0) 0 = Inl TypeError \<and>
   train \<lparr>iterate = (\<lambda>s. Inr ([()], s)), net_loss = (\<lambda>b s. Inr ((), s)),
          zero_grad = (\<lambda>s. Inr s), backward = (\<lambda>l s. Inl RuntimeError),
          step = (\<lambda>s. Inr (Suc s)), print_loss = (\<lambda>epoch l s. s)\<rparr> () 3 (0 :: nat)
     = Inl RuntimeError \<and>
   batch_loop \<lparr>iterate = (\<lambda>s. Inr ([()], s)), net_loss = (\<lambda>b s. Inr ((), s)),
          zero_grad = (\<lambda>s. Inr s), backward = (\<lambda>l s. Inr s),
          step = (\<lambda>s. Inl ValueError), print_loss = (\<lambda>epoch l s. s)\<rparr> [()] (0 :: nat)
     = Inl ValueError \<and>
   epoch_loop \<lparr>iterate = (\<lambda>s. Inr ([()], s)), net_loss = (\<lambda>b s. Inr ((), s)),
          zero_grad = (\<lambda>s. Inr s), backward = (\<lambda>l s. Inr s),
          step = (\<lambda>s. Inl ValueError), print_loss = (\<lambda>epoch l s. s)\<rparr> () [1] (0 :: nat)
     = Inl ValueError \<and>
   train \<lparr>iterate = (\<lambda>s. Inr ([()], s)), net_loss = (\<lambda>b s. Inr ((), s)),
          zero_grad = (\<lambda>s. Inr s), backward = (\<lambda>l s. Inr s),
          step = (\<lambda>s. Inl ValueError), print_loss = (\<lambda>epoch l s. s)\<rparr> () 1 (0 :: nat)
     = Inl ValueError"
proof -
  let ?x = "\<lparr>shape = [2, 4], data = map Val [1, 2, 3, 4, 5, 6, 7, 8]\<rparr>"
  let ?w = "\<lparr>shape = [5, 3], data = map Val [0, 1, 2, 3, 4, 5, 6, 7, 8, 9, 10, 11, 12, 13, 14]\<rparr>"
  let ?s = "\<lparr>heap = (\<lambda>a. \<lparr>shape = [3], data = map Val [15, 16, 17]\<rparr>)(1 := ?w),
             next_addr = 3, rng_pos = 18\<rparr>"
  let ?p = "\<lparr>weight = 1, bias = 2\<rparr>"
  let ?arrays = "[\<lparr>shape = [2], data = [Val 1, Val 2]\<rparr>, \<lparr>shape = [3], data = [Val 3, Val 4, Val 5]\<rparr>]"
  let ?g = "\<lambda>i. of_nat i :: rat"
  let ?t = "\<lparr>heap = (\<lambda>a. \<lparr>shape = [3], data = map Val [15, 16, 17]\<rparr>), next_addr = 4, rng_pos = 0\<rparr>"
  let ?api = "\<lparr>iterate = (\<lambda>s. Inr ([()], s)), net_loss = (\<lambda>b s. Inr ((), s)),
          zero_grad = (\<lambda>s. Inr s), backward = (\<lambda>l s. Inl RuntimeError),
          step = (\<lambda>s. Inr (Suc s)), print_loss = (\<lambda>epoch l s. s)\<rparr>
          :: (nat, unit, unit, py_error) torch_api"
  let ?api2 = "\<lparr>iterate = (\<lambda>s. Inr ([()], s)), net_loss = (\<lambda>b s. Inr ((), s)),
          zero_grad = (\<lambda>s. Inr s), backward = (\<lambda>l s. Inr s),
          step = (\<lambda>s. Inl ValueError), print_loss = (\<lambda>epoch l s. s)\<rparr>
          :: (nat, unit, unit, py_error) torch_api"
  have mm: "torch_matmul ?x ?w = Inl RuntimeError" by code_simp
  have td: "TensorDataset ?arrays = Inl AssertionError" by code_simp
  have hw: "heap ?s (weight ?p) = ?w" by simp
  have wa: "weight_at (ReLU 0) 0 = Inl TypeError" by (simp add: weight_at_def getitem_def)
  have tr: "train ?api () 3 0 = Inl RuntimeError"
    by (simp add: train_def upt_rec)
  note t1 = errors_come_from_the_library[where s = ?s and self = ?p and x = ?x and e = RuntimeError,
      THEN conjunct1]
  note t3 = errors_come_from_the_library[where TD = TensorDataset and DL = DataLoader
      and arrays = ?arrays and n = 10 and tr = True and e' = AssertionError,
      THEN conjunct2, THEN conjunct2, THEN conjunct1]
  note t5 = errors_come_from_the_library[where g = ?g and net = "ReLU 0"
      and m = "Linear 1 \<lparr>weight = 2, bias = 3\<rparr>" and s = ?t and e = TypeError,
      THEN conjunct2, THEN conjunct2, THEN conjunct2, THEN conjunct2, THEN conjunct1]
  note t9 = errors_come_from_the_library[where api = ?api2 and b = "()" and bs = "[]"
      and st = 0 and e'' = ValueError,
      THEN conjunct2, THEN conjunct2, THEN conjunct2, THEN conjunct2,
      THEN conjunct2, THEN conjunct2, THEN conjunct2, THEN conjunct2, THEN conjunct1]
  note t12 = errors_come_from_the_library[where api = ?api2 and full = "()" and epoch = 1
      and epochs = "[]" and st = 0 and e'' = ValueError,
      THEN conjunct2, THEN conjunct2, THEN conjunct2, THEN conjunct2,
      THEN conjunct2, THEN conjunct2, THEN conjunct2, THEN conjunct2,
      THEN conjunct2, THEN conjunct2, THEN conjunct2, THEN conjunct1]
  note t15 = errors_come_from_the_library[where api = ?api2 and full = "()" and k = 0 and st = 0,
      THEN conjunct2, THEN conjunct2, THEN conjunct2, THEN conjunct2,
      THEN conjunct2, THEN conjunct2, THEN conjunct2, THEN conjunct2,
      THEN conjunct2, THEN conjunct2, THEN conjunct2, THEN conjunct2,
      THEN conjunct2, THEN conjunct2]
  note t14 = errors_come_from_the_library[where api = ?api2 and full = "()" and st = 0,
      THEN conjunct2, THEN conjunct2, THEN conjunct2, THEN conjunct2,
      THEN conjunct2, THEN conjunct2, THEN conjunct2, THEN conjunct2,
      THEN conjunct2, THEN conjunct2, THEN conjunct2, THEN conjunct2,
      THEN conjunct2, THEN conjunct1]
  have f: "MyLinear_forward ?s ?p ?x = Inl RuntimeError"
    by (subst t1) (use mm in simp)
  have la: "load_array TensorDataset DataLoader ?arrays 10 True = Inl AssertionError"
    by (subst t3) (use td in simp)
  have "is_Linear (Linear 1 \<lparr>weight = 2, bias = 3\<rparr>)" by simp
  then have ini: "init_normal ?g (ReLU 0) (Linear 1 \<lparr>weight = 2, bias = 3\<rparr>) ?t = Inl TypeError"
    by (subst t5) (use wa in simp)
  have st: "step ?api2 0 = Inl ValueError" by simp
  have bl: "batch_loop ?api2 [()] 0 = Inl ValueError"
    by (subst t9) simp
  have el: "epoch_loop ?api2 () [1] 0 = Inl ValueError"
    by (subst t12) (use bl in simp)
  have tr2: "train ?api2 () 1 0 = Inl ValueError"
    unfolding One_nat_def by (subst t15) (use el t14 in simp)
  from f la ini mm td wa tr bl el tr2 show ?thesis by simp
qed

subsection \<open>C6: the tied layers share one weight\<close>

text \<open>
  C6. In the network built around one shared \<open>nn.Linear(8, 8)\<close>, \<open>net[2]\<close> and \<open>net[4]\<close>
  are the same module and \<open>net[2].weight\<close>, \<open>net[4].weight\<close> the same parameter object
  \<open>w\<close>: in every store the two layers read the same tensor. On every input \<open>x\<close> of shape
  \<open>(n, 4)\<close> the cell runs to its end; both printed comparisons of the first rows are true
  in all eight positions; the write \<open>net[2].weight.data[0, 0] = 100\<close> changes entry
  \<open>(0, 0)\<close> of that one tensor, which \<open>net[4]\<close> reads as well, and no other object.
\<close>

theorem tied_layers_share_their_weight:
  assumes "tied_net g s = (net, s1)"
  shows "\<exists>m w. getitem net 2 = Inr m \<and> getitem net 4 = Inr m \<and> attr_weight m = Inr w \<and>
           (\<forall>t. weight_data t net 2 = Inr (heap t w) \<and> weight_data t net 4 = Inr (heap t w)) \<and>
           (\<forall>x n. shape x = [n, 4] \<longrightarrow>
              (\<exists>s2. tied_cell g x s = Inr ((replicate 8 True, replicate 8 True), net, s1, s2) \<and>
                    heap s2 w = (heap s1 w)\<lparr>data := (data (heap s1 w))[0 := Val 100]\<rparr> \<and>
                    data (heap s2 w) ! 0 = Val 100 \<and>
                    (\<forall>a. a \<noteq> w \<longrightarrow> heap s2 a = heap s1 a)))"
proof -
  define a where "a = next_addr s"
  define w where "w = a + 1"
  define shared where "shared = Linear a \<lparr>weight = w, bias = a + 2\<rparr>"
  define l0 where "l0 = Linear (a + 3) \<lparr>weight = a + 4, bias = a + 5\<rparr>"
  define l6 where "l6 = Linear (a + 9) \<lparr>weight = a + 10, bias = a + 11\<rparr>"
  define ms where "ms = [l0, ReLU (a + 6), shared, ReLU (a + 7), shared, ReLU (a + 8), l6]"
  from assms have net: "net = Sequential (a + 12) ms"
    and s1: "s1 = s\<lparr>heap := (heap s)
            (w := \<lparr>shape = [8, 8], data = draws g (rng_pos s) 64\<rparr>,
             a + 2 := \<lparr>shape = [8], data = draws g (rng_pos s + 64) 8\<rparr>,
             a + 4 := \<lparr>shape = [8, 4], data = draws g (rng_pos s + 72) 32\<rparr>,
             a + 5 := \<lparr>shape = [8], data = draws g (rng_pos s + 104) 8\<rparr>,
             a + 10 := \<lparr>shape = [1, 8], data = draws g (rng_pos s + 112) 8\<rparr>,
             a + 11 := \<lparr>shape = [1], data = draws g (rng_pos s + 120) 1\<rparr>),
        next_addr := a + 13,
        rng_pos := rng_pos s + 121\<rparr>"
    by (simp_all add: tied_net_eq a_def w_def ms_def l0_def l6_def shared_def)
  have g2: "getitem net 2 = Inr shared" and g4: "getitem net 4 = Inr shared"
    by (simp_all add: net ms_def getitem_def)
  have aw: "attr_weight shared = Inr w" by (simp add: shared_def)
  have wa: "weight_at net 2 = Inr w" "weight_at net 4 = Inr w"
    by (simp_all add: weight_at_def g2 g4 aw)
  have wd: "weight_data t net 2 = Inr (heap t w)" "weight_data t net 4 = Inr (heap t w)" for t
    by (simp_all add: weight_data_def wa)
  define W where "W = \<lparr>shape = [8, 8], data = draws g (rng_pos s) 64\<rparr>"
  have hW: "heap s1 w = W" by (simp add: s1 W_def w_def)
  have W: "shape W = [8, 8]" "wf_tensor W" "exact W"
    by (simp_all add: W_def wf_tensor_def numel_def length_draws exact_draws)
  define W' where "W' = W\<lparr>data := (data W)[0 := Val 100]\<rparr>"
  have W': "shape W' = [8, 8]" "wf_tensor W'" "exact W'"
    using W by (auto simp: W'_def wf_tensor_def numel_def exact_def list_all_iff dest: set_update_subset_insert[THEN subsetD])
  have set: "torch_setitem2 W 0 0 (Val 100) = Inr W'"
    by (simp add: torch_setitem2_def W(1) W'_def)
  define s2 where "s2 = s1\<lparr>heap := (heap s1)(w := W')\<rparr>"
  have wr: "weight_write net 2 0 0 (Val 100) s1 = Inr s2"
    by (simp add: weight_write_def wa hW set s2_def)
  have p1: "weight_rows_equal s1 net 2 4 = Inr (replicate 8 True)"
    by (rule rows_equal_self[OF _ _ W]) (simp_all add: wd hW)
  have p2: "weight_rows_equal s2 net 2 4 = Inr (replicate 8 True)"
    by (rule rows_equal_self[OF _ _ W']) (simp_all add: wd s2_def)
  have cell: "\<exists>s2. tied_cell g x s = Inr ((replicate 8 True, replicate 8 True), net, s1, s2) \<and>
                    heap s2 w = (heap s1 w)\<lparr>data := (data (heap s1 w))[0 := Val 100]\<rparr> \<and>
                    data (heap s2 w) ! 0 = Val 100 \<and>
                    (\<forall>b. b \<noteq> w \<longrightarrow> heap s2 b = heap s1 b)"
    if x: "shape x = [n, 4]" for x n
  proof -
    have sh: "shape (heap s1 (a + 4)) = [8, 4]" "shape (heap s1 (a + 5)) = [8]"
      "shape (heap s1 w) = [8, 8]" "shape (heap s1 (a + 2)) = [8]"
      "shape (heap s1 (a + 10)) = [1, 8]" "shape (heap s1 (a + 11)) = [1]"
      by (simp_all add: s1 w_def)
    from F_linear_shape[OF sh(1,2) x] obtain y0 where
      y0: "module_forward s1 l0 x = Inr y0" "shape y0 = [n, 8]"
      by (auto simp: l0_def)
    have y1: "shape (torch_relu y0) = [n, 8]" by (simp add: shape_relu y0)
    from F_linear_shape[OF sh(3,4) y1] obtain y2 where
      y2: "module_forward s1 shared (torch_relu y0) = Inr y2" "shape y2 = [n, 8]"
      by (auto simp: shared_def)
    have y3: "shape (torch_relu y2) = [n, 8]" by (simp add: shape_relu y2)
    from F_linear_shape[OF sh(3,4) y3] obtain y4 where
      y4: "module_forward s1 shared (torch_relu y2) = Inr y4" "shape y4 = [n, 8]"
      by (auto simp: shared_def)
    have y5: "shape (torch_relu y4) = [n, 8]" by (simp add: shape_relu y4)
    from F_linear_shape[OF sh(5,6) y5] obtain y6 where
      y6: "module_forward s1 l6 (torch_relu y4) = Inr y6" "shape y6 = [n, 1]"
      by (auto simp: l6_def)
    have fw: "module_forward s1 net x = Inr y6"
      by (simp add: net ms_def y0 y2 y4 y6)
    have tc: "tied_cell g x s = Inr ((replicate 8 True, replicate 8 True), net, s1, s2)"
      by (simp add: tied_cell_def assms fw p1 wr p2)
    have "data W' ! 0 = Val 100"
      using W(2) by (simp add: W'_def wf_tensor_def numel_def W(1))
    then show ?thesis
      using tc by (intro exI[of _ s2]) (simp add: s2_def hW W'_def)
  qed
  from g2 g4 aw wd cell show ?thesis by blast
qed

text \<open>The cell on a \<open>2 \<times> 4\<close> input, with a generator that hands out 0, 1, 2, ...\<close>

theorem tied_layers_share_their_weight_witness:
  "(case tied_net (\<lambda>i. of_nat i)
           \<lparr>heap = (\<lambda>a. \<lparr>shape = [0], data = []\<rparr>), next_addr = 0, rng_pos = 0\<rparr> of
      (net, s1) \<Rightarrow>
        getitem net 2 = Inr (Linear 0 \<lparr>weight = 1, bias = 2\<rparr>) \<and>
        getitem net 4 = Inr (Linear 0 \<lparr>weight = 1, bias = 2\<rparr>) \<and>
        shape \<lparr>shape = [2, 4], data = map Val [1, 2, 3, 4, 5, 6, 7, 8]\<rparr> = [2, 4] \<and>
        (\<exists>s2. tied_cell (\<lambda>i. of_nat i)
                 \<lparr>shape = [2, 4], data = map Val [1, 2, 3, 4, 5, 6, 7, 8]\<rparr>
                 \<lparr>heap = (\<lambda>a. \<lparr>shape = [0], data = []\<rparr>), next_addr = 0, rng_pos = 0\<rparr>
               = Inr ((replicate 8 True, replicate 8 True), net, s1, s2) \<and>
             weight_data s2 net 2 = Inr (heap s2 1) \<and>
             weight_data s2 net 4 = Inr (heap s2 1) \<and>
             data (heap s2 1) ! 0 = Val 100))"
proof -
  let ?g = "\<lambda>i. of_nat i :: rat"
  let ?s = "\<lparr>heap = (\<lambda>a. \<lparr>shape = [0], data = []\<rparr>), next_addr = 0, rng_pos = 0\<rparr>"
  let ?x = "\<lparr>shape = [2, 4], data = map Val [1, 2, 3, 4, 5, 6, 7, 8]\<rparr>"
  obtain net s1 where tn: "tied_net ?g ?s = (net, s1)" by (cases "tied_net ?g ?s")
  then have net: "net = Sequential 12
        [Linear 3 \<lparr>weight = 4, bias = 5\<rparr>, ReLU 6, Linear 0 \<lparr>weight = 1, bias = 2\<rparr>, ReLU 7,
         Linear 0 \<lparr>weight = 1, bias = 2\<rparr>, ReLU 8, Linear 9 \<lparr>weight = 10, bias = 11\<rparr>]"
    by (auto simp: tied_net_eq)
  have g2: "getitem net 2 = Inr (Linear 0 \<lparr>weight = 1, bias = 2\<rparr>)"
    and g4: "getitem net 4 = Inr (Linear 0 \<lparr>weight = 1, bias = 2\<rparr>)"
    by (simp_all add: net getitem_def)
  have x: "shape ?x = [2, 4]" by simp
  from tied_layers_share_their_weight[OF tn] g2
  have all: "\<forall>t. weight_data t net 2 = Inr (heap t 1) \<and> weight_data t net 4 = Inr (heap t 1)"
    and cell: "\<forall>x n. shape x = [n, 4] \<longrightarrow>
              (\<exists>s2. tied_cell ?g x ?s = Inr ((replicate 8 True, replicate 8 True), net, s1, s2) \<and>
                    heap s2 1 = (heap s1 1)\<lparr>data := (data (heap s1 1))[0 := Val 100]\<rparr> \<and>
                    data (heap s2 1) ! 0 = Val 100 \<and>
                    (\<forall>a. a \<noteq> 1 \<longrightarrow> heap s2 a = heap s1 a))"
    by auto
  from cell x obtain s2 where
    "tied_cell ?g ?x ?s = Inr ((replicate 8 True, replicate 8 True), net, s1, s2)"
    "data (heap s2 1) ! 0 = Val 100"
    by blast
  with all g2 g4 show ?thesis by (simp add: tn)
qed

subsection \<open>C7: init_normal writes the parameters of net[0] only\<close>

text \<open>
  C7. For the network \<open>net\<close> of the first cell, \<open>net.apply(init_normal)\<close> succeeds in
  every store and changes no object but the weight and the bias of \<open>net[0]\<close>: the weight
  and the bias of \<open>net[2]\<close> are as before. \<open>init_normal\<close> does the same for every \<open>Linear\<close>
  module it is given (its argument decides only whether it acts): the two \<open>Linear\<close>
  modules visited each redraw the weight of \<open>net[0]\<close>, which ends as the second draw, and
  zero its bias. Run right after the first cell, the cell leaves \<open>net[0]\<close> with the second
  draw of 32 numbers as its \<open>8 \<times> 4\<close> weight and a zero bias.
\<close>

theorem init_normal_changes_only_first_layer:
  assumes "first_net g s = (net, s1)"
  shows "\<exists>w0 b0 w2 b2.
      weight_at net 0 = Inr w0 \<and> bias_at net 0 = Inr b0 \<and>
      weight_at net 2 = Inr w2 \<and> bias_at net 2 = Inr b2 \<and>
      (\<forall>t. \<exists>t2. Module_apply (init_normal g net) net t = Inr t2 \<and>
             heap t2 w2 = heap t w2 \<and> heap t2 b2 = heap t b2 \<and>
             (\<forall>a. a \<noteq> w0 \<and> a \<noteq> b0 \<longrightarrow> heap t2 a = heap t a) \<and>
             heap t2 w0 = (heap t w0)
               \<lparr>data := draws g (rng_pos t + numel (heap t w0)) (numel (heap t w0))\<rparr> \<and>
             heap t2 b0 = (heap t b0)\<lparr>data := replicate (numel (heap t b0)) (Val 0)\<rparr> \<and>
             rng_pos t2 = rng_pos t + 2 * numel (heap t w0)) \<and>
      (\<exists>out s2. init_normal_cell g net s1 = Inr (out, s2) \<and>
             heap s2 w2 = heap s1 w2 \<and> heap s2 b2 = heap s1 b2 \<and>
             heap s2 w0 = \<lparr>shape = [8, 4], data = draws g (rng_pos s1 + 32) 32\<rparr> \<and>
             heap s2 b0 = \<lparr>shape = [8], data = replicate 8 (Val 0)\<rparr> \<and>
             rng_pos s2 = rng_pos s1 + 64) \<and>
      (\<forall>m m' t. is_Linear m \<and> is_Linear m' \<longrightarrow>
         init_normal g net m t = init_normal g net m' t)"
proof -
  define a where "a = next_addr s"
  define w0 where "w0 = a + 1"
  define b0 where "b0 = a + 2"
  define w2 where "w2 = a + 5"
  define b2 where "b2 = a + 6"
  have ne: "w0 \<noteq> b0" "w2 \<noteq> w0" "w2 \<noteq> b0" "b2 \<noteq> w0" "b2 \<noteq> b0"
    by (simp_all add: w0_def b0_def w2_def b2_def)
  let ?l0 = "Linear a \<lparr>weight = w0, bias = b0\<rparr>"
  let ?l2 = "Linear (a + 4) \<lparr>weight = w2, bias = b2\<rparr>"
  from assms have net: "net = Sequential (a + 7) [?l0, ReLU (a + 3), ?l2]"
    and s1: "s1 = s\<lparr>heap := (heap s)
            (w0 := \<lparr>shape = [8, 4], data = draws g (rng_pos s) 32\<rparr>,
             b0 := \<lparr>shape = [8], data = draws g (rng_pos s + 32) 8\<rparr>,
             w2 := \<lparr>shape = [1, 8], data = draws g (rng_pos s + 40) 8\<rparr>,
             b2 := \<lparr>shape = [1], data = draws g (rng_pos s + 48) 1\<rparr>),
        next_addr := a + 8,
        rng_pos := rng_pos s + 49\<rparr>"
    by (simp_all add: first_net_eq a_def w0_def b0_def w2_def b2_def)
  have ad: "weight_at net 0 = Inr w0" "bias_at net 0 = Inr b0"
    "weight_at net 2 = Inr w2" "bias_at net 2 = Inr b2"
    by (simp_all add: net weight_at_def bias_at_def getitem_def)
  define step where "step t = nn_init_zeros b0 (nn_init_normal g w0 t)" for t
  have lin: "init_normal g net (Linear i p) t = Inr (step t)" for i p t
    by (simp add: init_normal_Linear[OF ad(1,2)] step_def)
  have ch: "children net = [?l0, ReLU (a + 3), ?l2]"
    by (simp add: net)
  have nl: "\<not> is_Linear net"
    by (simp add: net)
  have ap: "Module_apply (init_normal g net) net t = Inr (step (step t))" for t
    by (simp add: ch lin nl init_normal_other)
  have h1: "heap (step t) = (heap t)
       (w0 := (heap t w0)\<lparr>data := draws g (rng_pos t) (numel (heap t w0))\<rparr>,
        b0 := (heap t b0)\<lparr>data := replicate (numel (heap t b0)) (Val 0)\<rparr>)" for t
    using ne(1) by (simp add: step_def heap_init_zeros heap_init_normal)
  have r1: "rng_pos (step t) = rng_pos t + numel (heap t w0)" for t
    by (simp add: step_def rng_init_zeros rng_init_normal)
  have hw: "heap (step (step t)) w0 = (heap t w0)
       \<lparr>data := draws g (rng_pos t + numel (heap t w0)) (numel (heap t w0))\<rparr>" for t
    using ne(1) by (simp add: h1 r1 numel_def)
  have hb: "heap (step (step t)) b0 = (heap t b0)\<lparr>data := replicate (numel (heap t b0)) (Val 0)\<rparr>" for t
    using ne(1) by (simp add: h1 numel_def)
  have rr: "rng_pos (step (step t)) = rng_pos t + 2 * numel (heap t w0)" for t
    using ne(1) by (simp add: h1 r1 numel_def)
  have fr: "\<forall>c. c \<noteq> w0 \<and> c \<noteq> b0 \<longrightarrow> heap (step (step t)) c = heap t c" for t
    by (simp add: h1)
  have every: "\<exists>t2. Module_apply (init_normal g net) net t = Inr t2 \<and>
             heap t2 w2 = heap t w2 \<and> heap t2 b2 = heap t b2 \<and>
             (\<forall>c. c \<noteq> w0 \<and> c \<noteq> b0 \<longrightarrow> heap t2 c = heap t c) \<and>
             heap t2 w0 = (heap t w0)
               \<lparr>data := draws g (rng_pos t + numel (heap t w0)) (numel (heap t w0))\<rparr> \<and>
             heap t2 b0 = (heap t b0)\<lparr>data := replicate (numel (heap t b0)) (Val 0)\<rparr> \<and>
             rng_pos t2 = rng_pos t + 2 * numel (heap t w0)" for t
    using ap[of t] hw[of t] hb[of t] fr[of t] rr[of t] ne by simp
  define s2 where "s2 = step (step s1)"
  have w1: "heap s1 w0 = \<lparr>shape = [8, 4], data = draws g (rng_pos s) 32\<rparr>"
    and b1: "heap s1 b0 = \<lparr>shape = [8], data = draws g (rng_pos s + 32) 8\<rparr>"
    using ne by (simp_all add: s1)
  have hw2: "heap s2 w0 = \<lparr>shape = [8, 4], data = draws g (rng_pos s1 + 32) 32\<rparr>"
    by (simp add: s2_def hw w1 numel_def)
  have hb2: "heap s2 b0 = \<lparr>shape = [8], data = replicate 8 (Val 0)\<rparr>"
    by (simp add: s2_def hb b1 numel_def)
  have out: "init_normal_cell g net s1 =
      Inr ((\<lparr>shape = [4], data = take 4 (draws g (rng_pos s1 + 32) 32)\<rparr>,
            \<lparr>shape = [], data = take 1 (replicate 8 (Val 0))\<rparr>), s2)"
    unfolding init_normal_cell_def ap s2_def[symmetric]
    by (simp add: weight_data_def bias_data_def ad hw2 hb2 torch_getitem0_def)
  have cell: "\<exists>out s2. init_normal_cell g net s1 = Inr (out, s2) \<and>
             heap s2 w2 = heap s1 w2 \<and> heap s2 b2 = heap s1 b2 \<and>
             heap s2 w0 = \<lparr>shape = [8, 4], data = draws g (rng_pos s1 + 32) 32\<rparr> \<and>
             heap s2 b0 = \<lparr>shape = [8], data = replicate 8 (Val 0)\<rparr> \<and>
             rng_pos s2 = rng_pos s1 + 64"
    using out hw2 hb2 fr[of s1] rr[of s1] w1 ne by (simp add: s2_def numel_def)
  have same: "\<forall>m m' t. is_Linear m \<and> is_Linear m' \<longrightarrow>
         init_normal g net m t = init_normal g net m' t"
    by (simp add: init_normal_def)
  from ad every cell same show ?thesis by blast
qed

text \<open>The cell on the network of the first cell, with a generator that hands out 0, 1, 2, ...\<close>

theorem init_normal_changes_only_first_layer_witness:
  "(case first_net (\<lambda>i. of_nat i)
           \<lparr>heap = (\<lambda>a. \<lparr>shape = [0], data = []\<rparr>), next_addr = 0, rng_pos = 0\<rparr> of
      (net, s1) \<Rightarrow>
        (case init_normal_cell (\<lambda>i. of_nat i) net s1 of
           Inl e \<Rightarrow> False
         | Inr (out, s2) \<Rightarrow>
             weight_at net 0 = Inr 1 \<and> bias_at net 0 = Inr 2 \<and>
             weight_at net 2 = Inr 5 \<and> bias_at net 2 = Inr 6 \<and>
             heap s2 5 = heap s1 5 \<and> heap s2 6 = heap s1 6 \<and>
             heap s2 2 = \<lparr>shape = [8], data = replicate 8 (Val 0)\<rparr> \<and>
             rng_pos s1 = 49 \<and> rng_pos s2 = 113 \<and>
             is_Linear (Linear 0 \<lparr>weight = 1, bias = 2\<rparr>) \<and>
             is_Linear (Linear 4 \<lparr>weight = 5, bias = 6\<rparr>) \<and>
             init_normal (\<lambda>i. of_nat i) net (Linear 0 \<lparr>weight = 1, bias = 2\<rparr>) s1
               = init_normal (\<lambda>i. of_nat i) net (Linear 4 \<lparr>weight = 5, bias = 6\<rparr>) s1))"
proof -
  let ?g = "\<lambda>i. of_nat i :: rat"
  let ?s = "\<lparr>heap = (\<lambda>a. \<lparr>shape = [0], data = []\<rparr>), next_addr = 0, rng_pos = 0\<rparr>"
  obtain net s1 where fn: "first_net ?g ?s = (net, s1)" by (cases "first_net ?g ?s")
  then have net: "net = Sequential 7
        [Linear 0 \<lparr>weight = 1, bias = 2\<rparr>, ReLU 3, Linear 4 \<lparr>weight = 5, bias = 6\<rparr>]"
    and r1: "rng_pos s1 = 49"
    by (auto simp: first_net_eq)
  have ad: "weight_at net 0 = Inr 1" "bias_at net 0 = Inr 2"
      "weight_at net 2 = Inr 5" "bias_at net 2 = Inr 6"
    by (simp_all add: net weight_at_def bias_at_def getitem_def)
  from init_normal_changes_only_first_layer[OF fn] obtain w0 b0 w2 b2 where
    "weight_at net 0 = Inr w0" "bias_at net 0 = Inr b0"
    "weight_at net 2 = Inr w2" "bias_at net 2 = Inr b2"
    and same: "\<forall>m m' t. is_Linear m \<and> is_Linear m' \<longrightarrow>
         init_normal ?g net m t = init_normal ?g net m' t"
    and cell: "\<exists>out s2. init_normal_cell ?g net s1 = Inr (out, s2) \<and>
             heap s2 w2 = heap s1 w2 \<and> heap s2 b2 = heap s1 b2 \<and>
             heap s2 w0 = \<lparr>shape = [8, 4], data = draws ?g (rng_pos s1 + 32) 32\<rparr> \<and>
             heap s2 b0 = \<lparr>shape = [8], data = replicate 8 (Val 0)\<rparr> \<and>
             rng_pos s2 = rng_pos s1 + 64"
    by blast
  with ad have "w0 = 1" "b0 = 2" "w2 = 5" "b2 = 6" by simp_all
  with cell r1 obtain out s2 where "init_normal_cell ?g net s1 = Inr (out, s2)"
    "heap s2 5 = heap s1 5" "heap s2 6 = heap s1 6"
    "heap s2 2 = \<lparr>shape = [8], data = replicate 8 (Val 0)\<rparr>" "rng_pos s2 = 113"
    by auto
  moreover have "init_normal ?g net (Linear 0 \<lparr>weight = 1, bias = 2\<rparr>) s1
               = init_normal ?g net (Linear 4 \<lparr>weight = 5, bias = 6\<rparr>) s1"
    using same by simp
  ultimately show ?thesis using ad r1 by (simp add: fn)
qed

subsection \<open>C4: the training cell is an iterative procedure\<close>

text \<open>
  C4, as amended. The cells are short, but the training cell of the linear-regression
  notebook is an iterative procedure of the repository's own: for each epoch from 1 to
  \<open>num_epochs\<close> it iterates the data loader and, for every minibatch in order, calls the
  forward pass with the loss, \<open>zero_grad\<close>, \<open>backward\<close> on that loss and the optimizer's
  \<open>step\<close>, then evaluates the loss on the full data and prints it. Against a library that
  records its calls, the loop makes exactly these calls in this order, with
  \<open>num_epochs\<close> times the number of minibatches optimizer steps.
\<close>

theorem training_loop_iterates:
  "train (recording_api bs) full num_epochs [] =
     Inr (concat (map (calls_of_epoch bs full) [1..<num_epochs + 1])) \<and>
   count_list (concat (map (calls_of_epoch bs full) [1..<num_epochs + 1])) Step
     = num_epochs * length bs"
  by (simp add: train_def epoch_loop_recording count_steps_epochs)

text \<open>
  C4 as stated denies that any cell loops over epochs and minibatches. The training cell
  (\<open>num_epochs = 3\<close>), run on a loader of two minibatches, makes 33 library calls: three
  epochs of two rounds of forward, \<open>zero_grad\<close>, \<open>backward\<close> and \<open>step\<close>, each epoch closed
  by an evaluation and a print.
\<close>

theorem training_cell_runs_six_rounds:
  "training_cell (recording_api [1, 2 :: nat]) 0 [] =
     (Inr [Iterate, NetLoss 1, ZeroGrad, Backward 1, Step, NetLoss 2, ZeroGrad, Backward 2, Step,
           NetLoss 0, Print 1 0,
           Iterate, NetLoss 1, ZeroGrad, Backward 1, Step, NetLoss 2, ZeroGrad, Backward 2, Step,
           NetLoss 0, Print 2 0,
           Iterate, NetLoss 1, ZeroGrad, Backward 1, Step, NetLoss 2, ZeroGrad, Backward 2, Step,
           NetLoss 0, Print 3 0] :: unit + nat call list)"
  by code_simp

subsection \<open>C9: a cell reads what earlier cells left behind\<close>

text \<open>
  C9, as amended. The cells of a notebook share one state, and the result of a cell
  depends on it. The cell \<open>before = id(y); y = y + x; id(y) == before\<close> raises NameError
  unless earlier cells have bound \<open>y\<close> and \<open>x\<close>, and raises the library's error when the
  two tensors cannot be added. When \<open>y\<close> and \<open>x\<close> are bound to tensors, or one of them to
  a tensor and the other to an integer, and the sum succeeds, the cell displays \<open>False\<close>,
  binds \<open>y\<close> to a new tensor object that holds the sum of what \<open>y\<close> and \<open>x\<close> held before,
  leaves the old tensor of \<open>y\<close> and the binding of \<open>x\<close> as they were, and binds \<open>before\<close>
  to a new integer object whose value is the old identity of \<open>y\<close>. (The object \<open>y\<close> was
  bound to is one of the store: its address is below the next free one.)
\<close>

theorem id_cell_reads_the_notebook:
  "(tensors nb ''y'' = None \<and> ints nb ''y'' = None \<longrightarrow> id_cell nb = Inl NameError) \<and>
   (tensors nb ''x'' = None \<and> ints nb ''x'' = None \<longrightarrow> id_cell nb = Inl NameError) \<and>
   (tensors nb ''y'' = Some ay \<and> tensors nb ''x'' = Some ax \<and>
    torch_add (heap (mem nb) ay) (heap (mem nb) ax) = Inl e \<longrightarrow> id_cell nb = Inl e) \<and>
   (tensors nb ''y'' = Some ay \<and> tensors nb ''x'' = Some ax \<and> ay < next_addr (mem nb) \<and>
    torch_add (heap (mem nb) ay) (heap (mem nb) ax) = Inr t \<longrightarrow>
      (\<exists>nb'. id_cell nb = Inr (False, nb') \<and>
             tensors nb' ''y'' = Some (Suc (next_addr (mem nb))) \<and>
             heap (mem nb') (Suc (next_addr (mem nb))) = t \<and>
             heap (mem nb') ay = heap (mem nb) ay \<and>
             tensors nb' ''x'' = Some ax \<and>
             ints nb' ''before'' = Some (next_addr (mem nb), int ay))) \<and>
   (tensors nb ''y'' = None \<and> ints nb ''y'' = Some (ay, i) \<and> tensors nb ''x'' = Some ax \<and>
    ay < next_addr (mem nb) \<and>
    torch_add (heap (mem nb) ax) (scalar_tensor (Val (of_int i))) = Inr t \<longrightarrow>
      (\<exists>nb'. id_cell nb = Inr (False, nb') \<and>
             tensors nb' ''y'' = Some (Suc (next_addr (mem nb))) \<and>
             ints nb' ''y'' = None \<and>
             heap (mem nb') (Suc (next_addr (mem nb))) = t \<and>
             tensors nb' ''x'' = Some ax \<and>
             ints nb' ''before'' = Some (next_addr (mem nb), int ay))) \<and>
   (tensors nb ''y'' = Some ay \<and> tensors nb ''x'' = None \<and> ints nb ''x'' = Some (ax, j) \<and>
    ay < next_addr (mem nb) \<and>
    torch_add (heap (mem nb) ay) (scalar_tensor (Val (of_int j))) = Inr t \<longrightarrow>
      (\<exists>nb'. id_cell nb = Inr (False, nb') \<and>
             tensors nb' ''y'' = Some (Suc (next_addr (mem nb))) \<and>
             heap (mem nb') (Suc (next_addr (mem nb))) = t \<and>
             heap (mem nb') ay = heap (mem nb) ay \<and>
             ints nb' ''x'' = Some (ax, j) \<and>
             ints nb' ''before'' = Some (next_addr (mem nb), int ay)))"
  by (auto simp: id_cell_def lookup_name_def new_id_def alloc_def Let_def split: option.splits)

text \<open>
  A notebook in which \<open>x = [1, 2]\<close> and \<open>y = [10, 20]\<close>, one without variables, one with
  \<open>y\<close> alone, one in which \<open>x\<close> has three entries and \<open>y\<close> two, one in which \<open>y\<close> is the
  integer 5 and \<open>x = [1, 2]\<close>, and one in which \<open>x\<close> is the integer 5 and \<open>y = [10, 20]\<close>.
\<close>

theorem id_cell_reads_the_notebook_witness:
  "tensors \<lparr>tensors = [''x'' \<mapsto> 0, ''y'' \<mapsto> 1], ints = Map.empty,
            mem = \<lparr>heap = (\<lambda>a. \<lparr>shape = [2], data = [Val 10, Val 20]\<rparr>)
                           (0 := \<lparr>shape = [2], data = [Val 1, Val 2]\<rparr>),
                    next_addr = 2, rng_pos = 0\<rparr>\<rparr> ''y'' = Some 1 \<and>
   torch_add \<lparr>shape = [2], data = [Val 10, Val 20]\<rparr> \<lparr>shape = [2], data = [Val 1, Val 2]\<rparr>
     = Inr \<lparr>shape = [2], data = [Val 11, Val 22]\<rparr> \<and>
   (\<exists>nb'. id_cell \<lparr>tensors = [''x'' \<mapsto> 0, ''y'' \<mapsto> 1], ints = Map.empty,
            mem = \<lparr>heap = (\<lambda>a. \<lparr>shape = [2], data = [Val 10, Val 20]\<rparr>)
                           (0 := \<lparr>shape = [2], data = [Val 1, Val 2]\<rparr>),
                    next_addr = 2, rng_pos = 0\<rparr>\<rparr> = Inr (False, nb') \<and>
          tensors nb' ''y'' = Some 3 \<and>
          heap (mem nb') 3 = \<lparr>shape = [2], data = [Val 11, Val 22]\<rparr> \<and>
          heap (mem nb') 1 = \<lparr>shape = [2], data = [Val 10, Val 20]\<rparr> \<and>
          ints nb' ''before'' = Some (2, 1)) \<and>
   id_cell \<lparr>tensors = Map.empty, ints = Map.empty,
            mem = \<lparr>heap = (\<lambda>a. \<lparr>shape = [2], data = [Val 10, Val 20]\<rparr>),
                    next_addr = 0, rng_pos = 0\<rparr>\<rparr> = Inl NameError \<and>
   id_cell \<lparr>tensors = [''y'' \<mapsto> 1], ints = Map.empty,
            mem = \<lparr>heap = (\<lambda>a. \<lparr>shape = [2], data = [Val 10, Val 20]\<rparr>),
                    next_addr = 2, rng_pos = 0\<rparr>\<rparr> = Inl NameError \<and>
   torch_add \<lparr>shape = [2], data = [Val 10, Val 20]\<rparr> \<lparr>shape = [3], data = [Val 1, Val 2, Val 3]\<rparr>
     = Inl RuntimeError \<and>
   id_cell \<lparr>tensors = [''x'' \<mapsto> 0, ''y'' \<mapsto> 1], ints = Map.empty,
            mem = \<lparr>heap = (\<lambda>a. \<lparr>shape = [2], data = [Val 10, Val 20]\<rparr>)
                           (0 := \<lparr>shape = [3], data = [Val 1, Val 2, Val 3]\<rparr>),
                    next_addr = 2, rng_pos = 0\<rparr>\<rparr> = Inl RuntimeError \<and>
   torch_add \<lparr>shape = [2], data = [Val 1, Val 2]\<rparr> (scalar_tensor (Val (of_int 5)))
     = Inr \<lparr>shape = [2], data = [Val 6, Val 7]\<rparr> \<and>
   (\<exists>nb'. id_cell \<lparr>tensors = [''x'' \<mapsto> 0], ints = [''y'' \<mapsto> (1, 5)],
            mem = \<lparr>heap = (\<lambda>a. \<lparr>shape = [2], data = [Val 10, Val 20]\<rparr>)
                           (0 := \<lparr>shape = [2], data = [Val 1, Val 2]\<rparr>),
                    next_addr = 2, rng_pos = 0\<rparr>\<rparr> = Inr (False, nb') \<and>
          tensors nb' ''y'' = Some 3 \<and> ints nb' ''y'' = None \<and>
          heap (mem nb') 3 = \<lparr>shape = [2], data = [Val 6, Val 7]\<rparr> \<and>
          ints nb' ''before'' = Some (2, 1)) \<and>
   torch_add \<lparr>shape = [2], data = [Val 10, Val 20]\<rparr> (scalar_tensor (Val (of_int 5)))
     = Inr \<lparr>shape = [2], data = [Val 15, Val 25]\<rparr> \<and>
   (\<exists>nb'. id_cell \<lparr>tensors = [''y'' \<mapsto> 1], ints = [''x'' \<mapsto> (0, 5)],
            mem = \<lparr>heap = (\<lambda>a. \<lparr>shape = [2], data = [Val 10, Val 20]\<rparr>),
                    next_addr = 2, rng_pos = 0\<rparr>\<rparr> = Inr (False, nb') \<and>
          tensors nb' ''y'' = Some 3 \<and>
          heap (mem nb') 3 = \<lparr>shape = [2], data = [Val 15, Val 25]\<rparr> \<and>
          ints nb' ''before'' = Some (2, 1))"
proof -
  let ?y = "\<lparr>shape = [2], data = [Val 10, Val 20]\<rparr>"
  let ?x = "\<lparr>shape = [2], data = [Val 1, Val 2]\<rparr>"
  let ?t = "\<lparr>shape = [2], data = [Val 11, Val 22]\<rparr>"
  let ?m = "\<lparr>heap = (\<lambda>a. ?y)(0 := ?x), next_addr = 2, rng_pos = 0\<rparr>"
  let ?nb = "\<lparr>tensors = [''x'' \<mapsto> 0, ''y'' \<mapsto> 1], ints = Map.empty, mem = ?m\<rparr>"
  let ?e = "\<lparr>tensors = Map.empty, ints = Map.empty,
            mem = \<lparr>heap = (\<lambda>a. ?y), next_addr = 0, rng_pos = 0\<rparr>\<rparr>"
  have ad: "torch_add ?y ?x = Inr ?t" by code_simp
  have y: "tensors ?nb ''y'' = Some 1" by simp
  have pre: "tensors ?nb ''y'' = Some 1 \<and> tensors ?nb ''x'' = Some 0 \<and> 1 < next_addr (mem ?nb) \<and>
      torch_add (heap (mem ?nb) 1) (heap (mem ?nb) 0) = Inr ?t"
    using ad by simp
  note t = id_cell_reads_the_notebook[where nb = ?nb and ay = 1 and ax = 0 and t = ?t]
  from t[THEN conjunct2, THEN conjunct2, THEN conjunct2, THEN conjunct1, THEN mp, OF pre]
  have a: "\<exists>nb'. id_cell ?nb = Inr (False, nb') \<and> tensors nb' ''y'' = Some 3 \<and>
          heap (mem nb') 3 = ?t \<and> heap (mem nb') 1 = ?y \<and> ints nb' ''before'' = Some (2, 1)"
    by (auto simp: eval_nat_numeral)
  have "tensors ?e ''y'' = None \<and> ints ?e ''y'' = None" by simp
  from id_cell_reads_the_notebook[where nb = ?e, THEN conjunct1, THEN mp, OF this]
  have b: "id_cell ?e = Inl NameError" .
  let ?x3 = "\<lparr>shape = [3], data = [Val 1, Val 2, Val 3]\<rparr>"
  let ?ny = "\<lparr>tensors = [''y'' \<mapsto> 1], ints = Map.empty,
            mem = \<lparr>heap = (\<lambda>a. ?y), next_addr = 2, rng_pos = 0\<rparr>\<rparr>"
  let ?nm = "\<lparr>tensors = [''x'' \<mapsto> 0, ''y'' \<mapsto> 1], ints = Map.empty,
            mem = \<lparr>heap = (\<lambda>a. ?y)(0 := ?x3), next_addr = 2, rng_pos = 0\<rparr>\<rparr>"
  have "tensors ?ny ''x'' = None \<and> ints ?ny ''x'' = None" by simp
  from id_cell_reads_the_notebook[where nb = ?ny, THEN conjunct2, THEN conjunct1,
      THEN mp, OF this]
  have c: "id_cell ?ny = Inl NameError" .
  have ad3: "torch_add ?y ?x3 = Inl RuntimeError" by code_simp
  then have "tensors ?nm ''y'' = Some 1 \<and> tensors ?nm ''x'' = Some 0 \<and>
      torch_add (heap (mem ?nm) 1) (heap (mem ?nm) 0) = Inl RuntimeError"
    by simp
  from id_cell_reads_the_notebook[where nb = ?nm and ay = 1 and ax = 0 and e = RuntimeError,
      THEN conjunct2, THEN conjunct2, THEN conjunct1, THEN mp, OF this]
  have d: "id_cell ?nm = Inl RuntimeError" .
  let ?t5 = "\<lparr>shape = [2], data = [Val 6, Val 7]\<rparr>"
  let ?ni = "\<lparr>tensors = [''x'' \<mapsto> 0], ints = [''y'' \<mapsto> (1, 5)], mem = ?m\<rparr>"
  have ad5: "torch_add ?x (scalar_tensor (Val (of_int 5))) = Inr ?t5" by code_simp
  then have "tensors ?ni ''y'' = None \<and> ints ?ni ''y'' = Some (1, 5) \<and> tensors ?ni ''x'' = Some 0 \<and>
      1 < next_addr (mem ?ni) \<and>
      torch_add (heap (mem ?ni) 0) (scalar_tensor (Val (of_int 5))) = Inr ?t5"
    by simp
  from id_cell_reads_the_notebook[where nb = ?ni and ay = 1 and i = 5 and ax = 0 and t = ?t5,
      THEN conjunct2, THEN conjunct2, THEN conjunct2, THEN conjunct2, THEN conjunct1,
      THEN mp, OF this]
  have f: "\<exists>nb'. id_cell ?ni = Inr (False, nb') \<and> tensors nb' ''y'' = Some 3 \<and>
          ints nb' ''y'' = None \<and> heap (mem nb') 3 = ?t5 \<and> ints nb' ''before'' = Some (2, 1)"
    by (auto simp: eval_nat_numeral)
  let ?t6 = "\<lparr>shape = [2], data = [Val 15, Val 25]\<rparr>"
  let ?nj = "\<lparr>tensors = [''y'' \<mapsto> 1], ints = [''x'' \<mapsto> (0, 5)],
            mem = \<lparr>heap = (\<lambda>a. ?y), next_addr = 2, rng_pos = 0\<rparr>\<rparr>"
  have ad6: "torch_add ?y (scalar_tensor (Val (of_int 5))) = Inr ?t6" by code_simp
  then have "tensors ?nj ''y'' = Some 1 \<and> tensors ?nj ''x'' = None \<and> ints ?nj ''x'' = Some (0, 5) \<and>
      1 < next_addr (mem ?nj) \<and>
      torch_add (heap (mem ?nj) 1) (scalar_tensor (Val (of_int 5))) = Inr ?t6"
    by simp
  from id_cell_reads_the_notebook[where nb = ?nj and ay = 1 and j = 5 and ax = 0 and t = ?t6,
      THEN conjunct2, THEN conjunct2, THEN conjunct2, THEN conjunct2, THEN conjunct2,
      THEN mp, OF this]
  have h: "\<exists>nb'. id_cell ?nj = Inr (False, nb') \<and> tensors nb' ''y'' = Some 3 \<and>
          heap (mem nb') 3 = ?t6 \<and> ints nb' ''before'' = Some (2, 1)"
    by (auto simp: eval_nat_numeral)
  from y ad a b c d ad3 ad5 f ad6 h show ?thesis by simp
qed

text \<open>
  C9 as stated makes the result of a cell independent of the state before it. The cell
  raises NameError in a fresh notebook and displays \<open>False\<close> after the cells that define
  \<open>x\<close> and \<open>y\<close>; and the tensor it leaves in \<open>y\<close> differs with the tensor \<open>x\<close> holds:
  \<open>x = arange(12).reshape(3, 4)\<close> as first defined, or \<open>x\<close> after the two cells that
  overwrite its first two rows with 12.
\<close>

theorem id_cell_result_varies:
  "map_sum id fst
     (id_cell \<lparr>tensors = Map.empty, ints = Map.empty,
               mem = \<lparr>heap = (\<lambda>a. \<lparr>shape = [0], data = []\<rparr>), next_addr = 0, rng_pos = 0\<rparr>\<rparr>)
     = Inl NameError \<and>
   map_sum id fst
     (id_cell \<lparr>tensors = [''x'' \<mapsto> 0, ''y'' \<mapsto> 1], ints = Map.empty,
               mem = \<lparr>heap = (\<lambda>a. \<lparr>shape = [3, 4], data = map Val [2, 1, 4, 3, 1, 2, 3, 4, 4, 3, 2, 1]\<rparr>)
                        (0 := \<lparr>shape = [3, 4], data = map Val [0, 1, 2, 3, 4, 5, 6, 7, 8, 9, 10, 11]\<rparr>),
                      next_addr = 2, rng_pos = 0\<rparr>\<rparr>)
     = Inr False \<and>
   map_sum id (\<lambda>(r, nb). map_option (heap (mem nb)) (tensors nb ''y''))
     (id_cell \<lparr>tensors = [''x'' \<mapsto> 0, ''y'' \<mapsto> 1], ints = Map.empty,
               mem = \<lparr>heap = (\<lambda>a. \<lparr>shape = [3, 4], data = map Val [2, 1, 4, 3, 1, 2, 3, 4, 4, 3, 2, 1]\<rparr>)
                        (0 := \<lparr>shape = [3, 4], data = map Val [0, 1, 2, 3, 4, 5, 6, 7, 8, 9, 10, 11]\<rparr>),
                      next_addr = 2, rng_pos = 0\<rparr>\<rparr>)
     = Inr (Some \<lparr>shape = [3, 4], data = map Val [2, 2, 6, 6, 5, 7, 9, 11, 12, 12, 12, 12]\<rparr>) \<and>
   map_sum id (\<lambda>(r, nb). map_option (heap (mem nb)) (tensors nb ''y''))
     (id_cell \<lparr>tensors = [''x'' \<mapsto> 0, ''y'' \<mapsto> 1], ints = Map.empty,
               mem = \<lparr>heap = (\<lambda>a. \<lparr>shape = [3, 4], data = map Val [2, 1, 4, 3, 1, 2, 3, 4, 4, 3, 2, 1]\<rparr>)
                        (0 := \<lparr>shape = [3, 4], data = map Val [12, 12, 12, 12, 12, 12, 12, 12, 8, 9, 10, 11]\<rparr>),
                      next_addr = 2, rng_pos = 0\<rparr>\<rparr>)
     = Inr (Some \<lparr>shape = [3, 4], data = map Val [14, 13, 16, 15, 13, 14, 15, 16, 12, 12, 12, 12]\<rparr>)"
  by code_simp

end
